theory Spec2Isabelle
  imports Main "HOL-Library.Word"
begin

section \<open>Python values used by the proxy\<close>

text \<open>
  \<^item> \<open>bytes\<close> is a list of 8-bit words.
  \<^item> \<open>str\<close> is a list of Unicode code points (natural numbers below \<open>0x110000\<close>);
    \<open>py\<close> turns an ASCII literal of the source into such a list.
  \<^item> \<open>int\<close> is unbounded, as in Python.
  \<^item> a \<open>float\<close> is never inspected arithmetically by this code and is carried as its
    IEEE-754 bit pattern.
\<close>

type_synonym byte = "8 word"
type_synonym bytes = "byte list"
type_synonym pystr = "nat list"
type_synonym pyfloat = "64 word"

definition py :: "string \<Rightarrow> pystr" where
  "py s = map of_char s"

text \<open>
  Exceptions are values. \<open>HTTPStatusError\<close> carries the status code of the response it
  was raised for and the body of that response when it has been read
  (\<open>e.response.text\<close> is available), \<open>None\<close> otherwise. \<open>TransportError\<close> stands for the
  failures of the HTTP transport (httpx.RequestError and its subclasses: connection
  failures, timeouts, broken streams).
\<close>

datatype error =
    ValueError
  | OverflowError
  | TypeError
  | AttributeError
  | UnicodeEncodeError
  | UnicodeDecodeError
  | MalformedPointError
  | JSONDecodeError
  | StreamConsumed
  | TransportError pystr
  | HTTPStatusError nat "bytes option"

subsection \<open>\<open>str(int)\<close>\<close>

fun digits :: "nat \<Rightarrow> pystr" where
  "digits n = (if n < 10 then [48 + n] else digits (n div 10) @ [48 + n mod 10])"

declare digits.simps [simp del]

definition py_str :: "int \<Rightarrow> pystr" where
  "py_str i = (if i < 0 then 45 # digits (nat (- i)) else digits (nat i))"

text \<open>Reading a decimal numeral back (used to state what \<open>py_str\<close> denotes).\<close>

definition decimal_value :: "pystr \<Rightarrow> nat" where
  "decimal_value cs = foldl (\<lambda>acc c. 10 * acc + (c - 48)) 0 cs"

definition is_digit :: "nat \<Rightarrow> bool" where
  "is_digit c = (48 \<le> c \<and> c \<le> 57)"

subsection \<open>\<open>str.encode('utf-8')\<close> and \<open>bytes.decode('utf-8')\<close>\<close>

definition utf8_encode_cp :: "nat \<Rightarrow> bytes option" where
  "utf8_encode_cp c =
     (if c < 0x80 then Some [of_nat c]
      else if c < 0x800 then Some [of_nat (0xC0 + c div 64), of_nat (0x80 + c mod 64)]
      else if 0xD800 \<le> c \<and> c \<le> 0xDFFF then None
      else if c < 0x10000 then
        Some [of_nat (0xE0 + c div 4096), of_nat (0x80 + c div 64 mod 64),
              of_nat (0x80 + c mod 64)]
      else if c < 0x110000 then
        Some [of_nat (0xF0 + c div 262144), of_nat (0x80 + c div 4096 mod 64),
              of_nat (0x80 + c div 64 mod 64), of_nat (0x80 + c mod 64)]
      else None)"

fun utf8_encode :: "pystr \<Rightarrow> error + bytes" where
  "utf8_encode [] = Inr []"
| "utf8_encode (c # cs) =
     (case utf8_encode_cp c of
        None \<Rightarrow> Inl UnicodeEncodeError
      | Some bs \<Rightarrow>
          (case utf8_encode cs of Inl e \<Rightarrow> Inl e | Inr rest \<Rightarrow> Inr (bs @ rest)))"

definition is_cont :: "byte \<Rightarrow> bool" where
  "is_cont b = (0x80 \<le> b \<and> b \<le> 0xBF)"

definition cont_bits :: "byte \<Rightarrow> nat" where
  "cont_bits b = unat b mod 64"

definition cons_cp :: "nat \<Rightarrow> error + pystr \<Rightarrow> error + pystr" where
  "cons_cp c r = (case r of Inl e \<Rightarrow> Inl e | Inr cs \<Rightarrow> Inr (c # cs))"

fun utf8_decode :: "bytes \<Rightarrow> error + pystr" where
  "utf8_decode [] = Inr []"
| "utf8_decode (b0 # bs) =
     (if b0 < 0x80 then cons_cp (unat b0) (utf8_decode bs)
      else if 0xC2 \<le> b0 \<and> b0 \<le> 0xDF then
        (case bs of
           b1 # r \<Rightarrow>
             if is_cont b1
             then cons_cp ((unat b0 - 0xC0) * 64 + cont_bits b1) (utf8_decode r)
             else Inl UnicodeDecodeError
         | _ \<Rightarrow> Inl UnicodeDecodeError)
      else if 0xE0 \<le> b0 \<and> b0 \<le> 0xEF then
        (case bs of
           b1 # b2 # r \<Rightarrow>
             if is_cont b1 \<and> is_cont b2
                \<and> (b0 = 0xE0 \<longrightarrow> 0xA0 \<le> b1) \<and> (b0 = 0xED \<longrightarrow> b1 \<le> 0x9F)
             then cons_cp ((unat b0 - 0xE0) * 4096 + cont_bits b1 * 64 + cont_bits b2)
                    (utf8_decode r)
             else Inl UnicodeDecodeError
         | _ \<Rightarrow> Inl UnicodeDecodeError)
      else if 0xF0 \<le> b0 \<and> b0 \<le> 0xF4 then
        (case bs of
           b1 # b2 # b3 # r \<Rightarrow>
             if is_cont b1 \<and> is_cont b2 \<and> is_cont b3
                \<and> (b0 = 0xF0 \<longrightarrow> 0x90 \<le> b1) \<and> (b0 = 0xF4 \<longrightarrow> b1 \<le> 0x8F)
             then cons_cp ((unat b0 - 0xF0) * 262144 + cont_bits b1 * 4096
                            + cont_bits b2 * 64 + cont_bits b3)
                    (utf8_decode r)
             else Inl UnicodeDecodeError
         | _ \<Rightarrow> Inl UnicodeDecodeError)
      else Inl UnicodeDecodeError)"

subsection \<open>\<open>int.from_bytes(b, 'big')\<close> and \<open>int.to_bytes(n, 'big')\<close>\<close>

definition from_bytes :: "bytes \<Rightarrow> int" where
  "from_bytes bs = foldl (\<lambda>acc b. acc * 256 + uint b) 0 bs"

primrec be_bytes :: "nat \<Rightarrow> int \<Rightarrow> bytes" where
  "be_bytes 0 n = []"
| "be_bytes (Suc k) n = be_bytes k (n div 256) @ [of_int (n mod 256)]"

definition to_bytes :: "int \<Rightarrow> nat \<Rightarrow> error + bytes" where
  "to_bytes n len =
     (if n < 0 \<or> 256 ^ len \<le> n then Inl OverflowError else Inr (be_bytes len n))"

subsection \<open>\<open>bytes.fromhex\<close>\<close>

definition is_space :: "nat \<Rightarrow> bool" where
  "is_space c = (c = 32 \<or> (9 \<le> c \<and> c \<le> 13))"

definition hex_val :: "nat \<Rightarrow> nat option" where
  "hex_val c =
     (if 48 \<le> c \<and> c \<le> 57 then Some (c - 48)
      else if 97 \<le> c \<and> c \<le> 102 then Some (c - 87)
      else if 65 \<le> c \<and> c \<le> 70 then Some (c - 55)
      else None)"

text \<open>
  ASCII whitespace is skipped between bytes, never between the two digits of a byte;
  anything else that is not a pair of hexadecimal digits raises \<open>ValueError\<close>.
\<close>

fun fromhex :: "pystr \<Rightarrow> error + bytes" where
  "fromhex [] = Inr []"
| "fromhex (c # cs) =
     (if is_space c then fromhex cs
      else
        (case hex_val c of
           None \<Rightarrow> Inl ValueError
         | Some hi \<Rightarrow>
             (case cs of
                [] \<Rightarrow> Inl ValueError
              | d # ds \<Rightarrow>
                  (case hex_val d of
                     None \<Rightarrow> Inl ValueError
                   | Some lo \<Rightarrow>
                       (case fromhex ds of
                          Inl e \<Rightarrow> Inl e
                        | Inr rest \<Rightarrow> Inr (of_nat (16 * hi + lo) # rest))))))"

subsection \<open>\<open>base64.b64encode\<close>\<close>

definition b64_char :: "nat \<Rightarrow> byte" where
  "b64_char i =
     (if i < 26 then of_nat (65 + i)
      else if i < 52 then of_nat (71 + i)
      else if i < 62 then of_nat (i - 4)
      else if i = 62 then 43
      else 47)"

fun b64encode :: "bytes \<Rightarrow> bytes" where
  "b64encode [] = []"
| "b64encode [a] =
     [b64_char (unat a div 4), b64_char (unat a mod 4 * 16), 61, 61]"
| "b64encode [a, b] =
     [b64_char (unat a div 4), b64_char (unat a mod 4 * 16 + unat b div 16),
      b64_char (unat b mod 16 * 4), 61]"
| "b64encode (a # b # c # rest) =
     [b64_char (unat a div 4), b64_char (unat a mod 4 * 16 + unat b div 16),
      b64_char (unat b mod 16 * 4 + unat c div 64), b64_char (unat c mod 64)]
     @ b64encode rest"

text \<open>
  The decoder of RFC 4648 for padded input. It is what a verifier applies to the
  \<open>Authorization\<close> header; the proxy itself never decodes.
\<close>

definition b64_index :: "byte \<Rightarrow> nat option" where
  "b64_index b =
     (let c = unat b in
      if 65 \<le> c \<and> c \<le> 90 then Some (c - 65)
      else if 97 \<le> c \<and> c \<le> 122 then Some (c - 71)
      else if 48 \<le> c \<and> c \<le> 57 then Some (c + 4)
      else if c = 43 then Some 62
      else if c = 47 then Some 63
      else None)"

fun b64decode :: "bytes \<Rightarrow> bytes option" where
  "b64decode (c0 # c1 # c2 # c3 # rest) =
     (if rest = [] \<and> c3 = 61 then
        (if c2 = 61 then
           (case (b64_index c0, b64_index c1) of
              (Some i0, Some i1) \<Rightarrow> Some [of_nat (i0 * 4 + i1 div 16)]
            | _ \<Rightarrow> None)
         else
           (case (b64_index c0, b64_index c1, b64_index c2) of
              (Some i0, Some i1, Some i2) \<Rightarrow>
                Some [of_nat (i0 * 4 + i1 div 16), of_nat (i1 mod 16 * 16 + i2 div 4)]
            | _ \<Rightarrow> None))
      else
        (case (b64_index c0, b64_index c1, b64_index c2, b64_index c3) of
           (Some i0, Some i1, Some i2, Some i3) \<Rightarrow>
             (case b64decode rest of
                None \<Rightarrow> None
              | Some bs \<Rightarrow>
                  Some (of_nat (i0 * 4 + i1 div 16) # of_nat (i1 mod 16 * 16 + i2 div 4)
                        # of_nat (i2 mod 4 * 64 + i3) # bs))
         | _ \<Rightarrow> None))"
| "b64decode [] = Some []"
| "b64decode _ = None"

section \<open>External libraries\<close>

text \<open>
  JSON documents as Python holds them after \<open>json.loads\<close>: a dict is an association
  list with distinct keys.
\<close>

datatype json =
    JNull
  | JBool bool
  | JInt int
  | JFloat pyfloat
  | JStr pystr
  | JList "json list"
  | JDict "(pystr \<times> json) list"

text \<open>
  The packages the proxy calls but does not contain are parameters of the model:
  \<^item> \<open>sha256\<close>: \<open>hashlib.sha256\<close>, from message to digest;
  \<^item> \<open>sign_deterministic sk msg hashfunc\<close>: \<open>SigningKey.sign_deterministic\<close> of the
    \<open>ecdsa\<close> package on secp256k1 (RFC 6979 nonce, default string encoding \<open>r || s\<close>);
    it takes no random source and no clock, so it is a function of its arguments;
  \<^item> \<open>json_dumps\<close>, \<open>json_loads\<close>: the \<open>json\<close> module;
  \<^item> \<open>exc_str\<close>: \<open>str(e)\<close> of an exception.
\<close>

record libs =
  sha256 :: "bytes \<Rightarrow> bytes"
  sign_deterministic :: "int \<Rightarrow> bytes \<Rightarrow> (bytes \<Rightarrow> bytes) \<Rightarrow> bytes"
  json_dumps :: "json \<Rightarrow> pystr"
  json_loads :: "bytes \<Rightarrow> error + json"
  exc_str :: "error \<Rightarrow> pystr"

text \<open>\<open>SECP256k1.order\<close>, the order of the group of secp256k1.\<close>

definition SECP256k1_order :: int where
  "SECP256k1_order = 0xFFFFFFFFFFFFFFFFFFFFFFFFFFFFFFFEBAAEDCE6AF48A03BBFD25E8CD0364141"

text \<open>
  \<open>SigningKey.from_string(string, curve=SECP256k1)\<close>: the \<open>ecdsa\<close> package rejects a
  string that is not 32 bytes long, and a secret exponent outside \<open>1 \<le> secexp < order\<close>,
  with \<open>MalformedPointError\<close>. The signing key is represented by its secret exponent.
\<close>

definition SigningKey_from_string :: "bytes \<Rightarrow> error + int" where
  "SigningKey_from_string string =
     (if length string \<noteq> 32 then Inl MalformedPointError
      else
        (let secexp = from_bytes string in
         if 1 \<le> secexp \<and> secexp < SECP256k1_order then Inr secexp
         else Inl MalformedPointError))"

section \<open>The world outside the process\<close>

text \<open>
  An upstream response: its status code, the chunks \<open>aiter_bytes\<close> delivers, in order,
  and the transport failure that cuts the body short, if any.
\<close>

record response =
  status_code :: nat
  body :: "bytes list"
  body_error :: "error option"

record outbound =
  out_method :: pystr
  out_url :: pystr
  out_headers :: "(pystr \<times> pystr) list"
  out_content :: bytes

text \<open>
  \<^item> \<open>wall_clock\<close>: what \<open>time.time_ns()\<close> returns now; an operator may set it to
    anything at any time.
  \<^item> \<open>perf_clock n\<close>: what the \<open>n\<close>-th call of \<open>time.perf_counter_ns()\<close> in this
    process returns; \<open>perf_reads\<close> counts the calls made so far.
  \<^item> \<open>upstream n req\<close>: how the network answers the \<open>n\<close>-th outbound request;
    \<open>sent\<close> lists the outbound requests issued so far.
  \<^item> \<open>body_reads\<close>: how many times an inbound request body has been read.
\<close>

record world =
  wall_clock :: int
  perf_clock :: "nat \<Rightarrow> int"
  perf_reads :: nat
  upstream :: "nat \<Rightarrow> outbound \<Rightarrow> error + response"
  sent :: "outbound list"
  body_reads :: nat

definition time_ns :: "world \<Rightarrow> int" where
  "time_ns w = wall_clock w"

definition perf_counter_ns :: "world \<Rightarrow> int \<times> world" where
  "perf_counter_ns w = (perf_clock w (perf_reads w), w\<lparr>perf_reads := Suc (perf_reads w)\<rparr>)"

section \<open>gonka\_client.py\<close>

record GonkaClient =
  private_key :: pystr
  address :: pystr
  endpoint :: pystr
  provider_address :: pystr
  timeout :: pyfloat
  wall_base :: int
  perf_base :: int

definition rstrip :: "pystr \<Rightarrow> nat \<Rightarrow> pystr" where
  "rstrip s c = rev (dropWhile (\<lambda>x. x = c) (rev s))"

definition startswith :: "pystr \<Rightarrow> pystr \<Rightarrow> bool" where
  "startswith s p = (take (length p) s = p)"

text \<open>\<open>GonkaClient.__init__\<close>: stores its arguments and reads both clocks. Nothing raises.\<close>

definition GonkaClient_init ::
  "world \<Rightarrow> pystr \<Rightarrow> pystr \<Rightarrow> pystr \<Rightarrow> pystr \<Rightarrow> pyfloat \<Rightarrow> GonkaClient \<times> world" where
  "GonkaClient_init w private_key' address' endpoint' provider_address' timeout' =
     (let wb = time_ns w;
          (pb, w') = perf_counter_ns w
      in (\<lparr>private_key = private_key', address = address',
           endpoint = rstrip endpoint' 47, provider_address = provider_address',
           timeout = timeout', wall_base = wb, perf_base = pb\<rparr>, w'))"

definition hybrid_timestamp_ns :: "GonkaClient \<Rightarrow> world \<Rightarrow> int \<times> world" where
  "hybrid_timestamp_ns self w =
     (let (p, w') = perf_counter_ns w in (wall_base self + (p - perf_base self), w'))"

text \<open>
  A run of calls of \<open>_hybrid_timestamp_ns\<close> on one client. Before each call the
  environment acts: the wall clock is set to an arbitrary value, and the monotonic
  clock is read some number of times by others in the process.
\<close>

fun hybrid_calls :: "GonkaClient \<Rightarrow> world \<Rightarrow> (int \<times> nat) list \<Rightarrow> int list" where
  "hybrid_calls self w [] = []"
| "hybrid_calls self w ((wall, k) # evs) =
     (let (t, w') = hybrid_timestamp_ns self
                      (w\<lparr>wall_clock := wall, perf_reads := perf_reads w + k\<rparr>)
      in t # hybrid_calls self w' evs)"

text \<open>Lines 50-51 of \<open>_sign_payload\<close>: the signing key is parsed on every call.\<close>

definition strip_0x :: "pystr \<Rightarrow> pystr" where
  "strip_0x k = (if startswith k (py ''0x'') then drop 2 k else k)"

definition signing_key :: "GonkaClient \<Rightarrow> error + int" where
  "signing_key self =
     (let pk = strip_0x (private_key self)
      in case fromhex pk of
           Inl e \<Rightarrow> Inl e
         | Inr kb \<Rightarrow> SigningKey_from_string kb)"

text \<open>Line 54: \<open>payload_bytes + str(timestamp_ns).encode('utf-8') + provider_address.encode('utf-8')\<close>.\<close>

definition message_bytes :: "bytes \<Rightarrow> int \<Rightarrow> pystr \<Rightarrow> error + bytes" where
  "message_bytes payload_bytes timestamp_ns provider_addr =
     (case utf8_encode (py_str timestamp_ns) of
        Inl e \<Rightarrow> Inl e
      | Inr ts \<Rightarrow>
          (case utf8_encode provider_addr of
             Inl e \<Rightarrow> Inl e
           | Inr pa \<Rightarrow> Inr (payload_bytes @ ts @ pa)))"

text \<open>Lines 58-64: split the raw signature and bring \<open>s\<close> to the lower half of the order.\<close>

definition low_s :: "bytes \<Rightarrow> error + bytes" where
  "low_s sig =
     (let r = take 32 sig;
          s = drop 32 sig;
          order = SECP256k1_order;
          s_int = from_bytes s
      in if s_int > order div 2
         then (case to_bytes (order - s_int) 32 of
                 Inl e \<Rightarrow> Inl e
               | Inr s' \<Rightarrow> Inr (r @ s'))
         else Inr (r @ s))"

text \<open>
  What the receiver of the \<open>Authorization\<close> header does with it: the bytes of the
  string, base64-decoded.
\<close>

definition decode_signature :: "pystr \<Rightarrow> bytes option" where
  "decode_signature str =
     (case utf8_encode str of
        Inl e \<Rightarrow> None
      | Inr b \<Rightarrow> b64decode b)"

definition sign_payload :: "libs \<Rightarrow> GonkaClient \<Rightarrow> bytes \<Rightarrow> int \<Rightarrow> pystr \<Rightarrow> error + pystr" where
  "sign_payload L self payload_bytes timestamp_ns provider_addr =
     (case signing_key self of
        Inl e \<Rightarrow> Inl e
      | Inr sk \<Rightarrow>
          (case message_bytes payload_bytes timestamp_ns provider_addr of
             Inl e \<Rightarrow> Inl e
           | Inr msg \<Rightarrow>
               (case low_s (sign_deterministic L sk msg (sha256 L)) of
                  Inl e \<Rightarrow> Inl e
                | Inr rs \<Rightarrow> utf8_decode (b64encode rs))))"

text \<open>
  \<open>_prepare_request\<close>: serialise the payload, read the clock once, sign, and build the
  headers from the value that was signed.
\<close>

definition prepare_request ::
  "libs \<Rightarrow> GonkaClient \<Rightarrow> world \<Rightarrow> json option
     \<Rightarrow> (error + bytes \<times> (pystr \<times> pystr) list) \<times> world" where
  "prepare_request L self w payload =
     (let payload' = (case payload of None \<Rightarrow> JDict [] | Some p \<Rightarrow> p) in
      case utf8_encode (json_dumps L payload') of
        Inl e \<Rightarrow> (Inl e, w)
      | Inr payload_bytes \<Rightarrow>
          (let (timestamp_ns, w') = hybrid_timestamp_ns self w in
           case sign_payload L self payload_bytes timestamp_ns (provider_address self) of
             Inl e \<Rightarrow> (Inl e, w')
           | Inr signature \<Rightarrow>
               (Inr (payload_bytes,
                     [(py ''Content-Type'', py ''application/json''),
                      (py ''Authorization'', signature),
                      (py ''X-Requester-Address'', address self),
                      (py ''X-Timestamp'', py_str timestamp_ns)]), w')))"

subsection \<open>The httpx client\<close>

text \<open>\<open>Response.raise_for_status\<close>: raises for every status outside 200..299.\<close>

definition raise_for_status :: "nat \<Rightarrow> bytes option \<Rightarrow> error option" where
  "raise_for_status status content =
     (if 200 \<le> status \<and> status \<le> 299 then None
      else Some (HTTPStatusError status content))"

text \<open>\<open>Response.aread\<close>: the whole body, or the failure that cut it short.\<close>

definition aread :: "response \<Rightarrow> error + bytes" where
  "aread resp =
     (case body_error resp of
        Some e \<Rightarrow> Inl e
      | None \<Rightarrow> Inr (concat (body resp)))"

text \<open>
  When httpx builds a request it encodes the header names and values as ASCII: a
  \<open>str\<close> with a code point above 127 raises \<open>UnicodeEncodeError\<close> there, before
  anything is sent.
\<close>

definition ascii_str :: "pystr \<Rightarrow> bool" where
  "ascii_str s = list_all (\<lambda>c. c < 128) s"

definition build_headers :: "(pystr \<times> pystr) list \<Rightarrow> error option" where
  "build_headers hs =
     (if list_all (\<lambda>(k, v). ascii_str k \<and> ascii_str v) hs then None
      else Some UnicodeEncodeError)"

text \<open>
  \<open>AsyncClient.request\<close>: builds the request, sends it and reads the whole response
  before it returns; a transport failure at either step is raised.
\<close>

definition client_request :: "world \<Rightarrow> outbound \<Rightarrow> (error + nat \<times> bytes) \<times> world" where
  "client_request w req =
     (case build_headers (out_headers req) of
        Some e \<Rightarrow> (Inl e, w)
      | None \<Rightarrow>
          (let w' = w\<lparr>sent := sent w @ [req]\<rparr> in
           case upstream w (length (sent w)) req of
             Inl e \<Rightarrow> (Inl e, w')
           | Inr resp \<Rightarrow>
               (case aread resp of
                  Inl e \<Rightarrow> (Inl e, w')
                | Inr content \<Rightarrow> (Inr (status_code resp, content), w'))))"

text \<open>
  \<open>Response.aiter_bytes\<close>: on a response that has not been read, the chunks as they
  arrive, then the failure if the body breaks off; on a response already read, its
  content in one piece; on a response whose read failed, \<open>StreamConsumed\<close>.
\<close>

datatype read_state = Unread | Read bytes | Broken

record stream_result =
  chunks :: "bytes list"
  raised :: "error option"

definition aiter_bytes :: "response \<Rightarrow> read_state \<Rightarrow> stream_result" where
  "aiter_bytes resp st =
     (case st of
        Unread \<Rightarrow> \<lparr>chunks = body resp, raised = body_error resp\<rparr>
      | Read content \<Rightarrow> \<lparr>chunks = (if content = [] then [] else [content]), raised = None\<rparr>
      | Broken \<Rightarrow> \<lparr>chunks = [], raised = Some StreamConsumed\<rparr>)"

subsection \<open>\<open>request\<close>, \<open>request_stream\<close>, \<open>get_models\<close>\<close>

text \<open>
  The calls to the logger are left out: they return nothing, and each block that
  formats a log line catches its own exceptions. Both \<open>except\<close> clauses of \<open>request\<close>
  and of \<open>request_stream\<close> log and re-raise, so the exception leaves unchanged.
\<close>

definition request ::
  "libs \<Rightarrow> GonkaClient \<Rightarrow> world \<Rightarrow> pystr \<Rightarrow> pystr \<Rightarrow> json option \<Rightarrow> (error + json) \<times> world" where
  "request L self w method path payload =
     (let url = endpoint self @ path in
      case prepare_request L self w payload of
        (Inl e, w1) \<Rightarrow> (Inl e, w1)
      | (Inr (payload_bytes, headers), w1) \<Rightarrow>
          (case client_request w1 \<lparr>out_method = method, out_url = url,
                                    out_headers = headers, out_content = payload_bytes\<rparr> of
             (Inl e, w2) \<Rightarrow> (Inl e, w2)
           | (Inr (status, content), w2) \<Rightarrow>
               (case raise_for_status status (Some content) of
                  Some e \<Rightarrow> (Inl e, w2)
                | None \<Rightarrow> (json_loads L content, w2))))"

text \<open>
  \<open>request_stream\<close> is a generator; its result is everything it yields, in order,
  and the exception that ends it, if any.
\<close>

definition request_stream ::
  "libs \<Rightarrow> GonkaClient \<Rightarrow> world \<Rightarrow> pystr \<Rightarrow> pystr \<Rightarrow> json option \<Rightarrow> stream_result \<times> world" where
  "request_stream L self w method path payload =
     (let url = endpoint self @ path in
      case prepare_request L self w payload of
        (Inl e, w1) \<Rightarrow> (\<lparr>chunks = [], raised = Some e\<rparr>, w1)
      | (Inr (payload_bytes, headers), w1) \<Rightarrow>
          (case build_headers headers of
             Some e \<Rightarrow> (\<lparr>chunks = [], raised = Some e\<rparr>, w1)
           | None \<Rightarrow>
               (let req = \<lparr>out_method = method, out_url = url,
                           out_headers = headers, out_content = payload_bytes\<rparr>;
                    w2 = w1\<lparr>sent := sent w1 @ [req]\<rparr>
                in case upstream w1 (length (sent w1)) req of
                     Inl e \<Rightarrow> (\<lparr>chunks = [], raised = Some e\<rparr>, w2)
                   | Inr response \<Rightarrow>
                       if status_code response \<ge> 400 then
                         (let st = (case aread response of
                                      Inl read_err \<Rightarrow> Broken
                                    | Inr error_body \<Rightarrow> Read error_body)
                          in case raise_for_status (status_code response)
                                    (case st of Read c \<Rightarrow> Some c | _ \<Rightarrow> None) of
                               Some e \<Rightarrow> (\<lparr>chunks = [], raised = Some e\<rparr>, w2)
                             | None \<Rightarrow> (aiter_bytes response st, w2))
                       else (aiter_bytes response Unread, w2))))"

text \<open>\<open>len(x)\<close> and \<open>x.get(key, default)\<close> on a JSON value.\<close>

definition py_len :: "json \<Rightarrow> error + nat" where
  "py_len v =
     (case v of
        JStr s \<Rightarrow> Inr (length s)
      | JList xs \<Rightarrow> Inr (length xs)
      | JDict kvs \<Rightarrow> Inr (length kvs)
      | _ \<Rightarrow> Inl TypeError)"

definition dict_get :: "json \<Rightarrow> pystr \<Rightarrow> json \<Rightarrow> error + json" where
  "dict_get v key dflt =
     (case v of
        JDict kvs \<Rightarrow> Inr (case map_of kvs key of None \<Rightarrow> dflt | Some x \<Rightarrow> x)
      | _ \<Rightarrow> Inl AttributeError)"

definition get_models :: "libs \<Rightarrow> GonkaClient \<Rightarrow> world \<Rightarrow> (error + json) \<times> world" where
  "get_models L self w =
     (case request L self w (py ''GET'') (py ''/models'') (Some (JDict [])) of
        (Inl e, w') \<Rightarrow> (Inr (JList []), w')
      | (Inr response, w') \<Rightarrow>
          (case dict_get response (py ''models'') (JList []) of
             Inl e \<Rightarrow> (Inr (JList []), w')
           | Inr models \<Rightarrow>
               (case py_len models of
                  Inl e \<Rightarrow> (Inr (JList []), w')
                | Inr n \<Rightarrow> (Inr models, w'))))"

section \<open>auth.py and main.py\<close>

record Settings =
  gonka_private_key :: pystr
  gonka_address :: pystr
  gonka_endpoint :: pystr
  gonka_provider_address :: pystr
  api_key :: pystr
  host :: pystr
  port :: int

text \<open>The module-level globals \<open>gonka_client\<close> and \<open>available_models\<close>.\<close>

record app_state =
  gonka_client :: "GonkaClient option"
  available_models :: json

definition initial_state :: app_state where
  "initial_state = \<lparr>gonka_client = None, available_models = JList []\<rparr>"

text \<open>
  An inbound request as the handlers see it: the \<open>Authorization\<close> header, the
  credentials the \<open>HTTPBearer(auto_error=False)\<close> dependency extracted from it (if
  any), and the body, which is read only when a handler asks for it.
\<close>

record inbound =
  authorization :: "pystr option"
  credentials :: "pystr option"
  raw_body :: bytes

text \<open>
  What the framework sends back: an \<open>HTTPException\<close> with its status and detail, a
  JSON body with status 200, a streaming response, or an exception no handler caught.
\<close>

datatype http_result =
    HTTPException nat pystr
  | JSONResponse json
  | StreamingResponse stream_result
  | Unhandled error

definition verify_api_key :: "Settings \<Rightarrow> inbound \<Rightarrow> http_result + bool" where
  "verify_api_key S req =
     (if api_key S = [] then
        Inl (HTTPException 500 (py ''API key not configured on server''))
      else
        (let token = (case credentials req of None \<Rightarrow> [] | Some c \<Rightarrow> c);
             token = (if token = [] then
                        (let auth_header = (case authorization req of None \<Rightarrow> [] | Some h \<Rightarrow> h)
                         in if auth_header \<noteq> [] then
                              (if startswith auth_header (py ''Bearer '')
                               then drop 7 auth_header else auth_header)
                            else token)
                      else token)
         in if token = [] then
              Inl (HTTPException 401
                (py ''Missing API key. Please provide Authorization header with Bearer token.''))
            else if token \<noteq> api_key S then
              Inl (HTTPException 401 (py ''Invalid API key''))
            else Inr True))"

text \<open>The default of the \<open>timeout\<close> parameter of \<open>GonkaClient.__init__\<close>: \<open>60.0\<close>.\<close>

definition default_timeout :: pyfloat where
  "default_timeout = 0x404E000000000000"

definition create_gonka_client ::
  "Settings \<Rightarrow> app_state \<Rightarrow> world \<Rightarrow> GonkaClient option \<times> app_state \<times> world" where
  "create_gonka_client S st w =
     (case gonka_client st of
        Some c \<Rightarrow> (Some c, st, w)
      | None \<Rightarrow>
          if \<not> (gonka_private_key S \<noteq> [] \<and> gonka_address S \<noteq> []
                \<and> gonka_endpoint S \<noteq> [] \<and> gonka_provider_address S \<noteq> [])
          then (None, st, w)
          else
            (let (c, w') = GonkaClient_init w (gonka_private_key S) (gonka_address S)
                             (gonka_endpoint S) (gonka_provider_address S) default_timeout
             in (Some c, st\<lparr>gonka_client := Some c\<rparr>, w')))"

fun py_join :: "pystr \<Rightarrow> pystr list \<Rightarrow> pystr" where
  "py_join sep [] = []"
| "py_join sep [x] = x"
| "py_join sep (x # y # ys) = x @ sep @ py_join sep (y # ys)"

definition missing_settings :: "Settings \<Rightarrow> pystr list" where
  "missing_settings S =
     (if gonka_private_key S = [] then [py ''GONKA_PRIVATE_KEY''] else [])
     @ (if gonka_address S = [] then [py ''GONKA_ADDRESS''] else [])
     @ (if gonka_endpoint S = [] then [py ''GONKA_ENDPOINT''] else [])
     @ (if gonka_provider_address S = [] then
          [py ''GONKA_PROVIDER_ADDRESS (provider address in bech32 format, get it from the Gonka provider)'']
        else [])"

definition incomplete_detail :: "Settings \<Rightarrow> pystr" where
  "incomplete_detail S =
     py ''Gonka configuration incomplete. Missing: ''
     @ py_join (py '', '') (missing_settings S)
     @ py ''. ''
     @ py ''GONKA_PROVIDER_ADDRESS is the Gonka provider address (bech32 format), ''
     @ py ''which can be obtained from the provider or in Gonka documentation.''"

definition get_gonka_client ::
  "Settings \<Rightarrow> app_state \<Rightarrow> world \<Rightarrow> (http_result + GonkaClient) \<times> app_state \<times> world" where
  "get_gonka_client S st w =
     (case create_gonka_client S st w of
        (None, st', w') \<Rightarrow> (Inl (HTTPException 500 (incomplete_detail S)), st', w')
      | (Some client, st', w') \<Rightarrow> (Inr client, st', w'))"

text \<open>Python's truth value of a JSON value (\<open>if stream:\<close>).\<close>

definition truthy :: "json \<Rightarrow> bool" where
  "truthy v =
     (case v of
        JNull \<Rightarrow> False
      | JBool b \<Rightarrow> b
      | JInt i \<Rightarrow> i \<noteq> 0
      | JFloat f \<Rightarrow> f \<noteq> 0 \<and> f \<noteq> 0x8000000000000000
      | JStr s \<Rightarrow> s \<noteq> []
      | JList xs \<Rightarrow> xs \<noteq> []
      | JDict kvs \<Rightarrow> kvs \<noteq> [])"

text \<open>\<open>await request.json()\<close>: reads the body, then parses it.\<close>

definition request_json :: "libs \<Rightarrow> world \<Rightarrow> inbound \<Rightarrow> (error + json) \<times> world" where
  "request_json L w req = (json_loads L (raw_body req), w\<lparr>body_reads := Suc (body_reads w)\<rparr>)"

text \<open>
  The handler of \<open>POST /v1/chat/completions\<close>. The streaming response is given with
  what its generator goes on to produce once the framework iterates it.
\<close>

definition chat_completions ::
  "Settings \<Rightarrow> libs \<Rightarrow> app_state \<Rightarrow> world \<Rightarrow> inbound \<Rightarrow> http_result \<times> app_state \<times> world" where
  "chat_completions S L st w req =
     (case get_gonka_client S st w of
        (Inl exc, st1, w1) \<Rightarrow> (exc, st1, w1)
      | (Inr client, st1, w1) \<Rightarrow>
          (case request_json L w1 req of
             (Inl e, w2) \<Rightarrow>
               (HTTPException 400 (py ''Invalid JSON: '' @ exc_str L e), st1, w2)
           | (Inr body_json, w2) \<Rightarrow>
               (case dict_get body_json (py ''stream'') (JBool False) of
                  Inl e \<Rightarrow> (Unhandled e, st1, w2)
                | Inr stream \<Rightarrow>
                    if truthy stream then
                      (let (sr, w3) = request_stream L client w2 (py ''POST'')
                                        (py ''/chat/completions'') (Some body_json)
                       in (StreamingResponse sr, st1, w3))
                    else
                      (case request L client w2 (py ''POST'') (py ''/chat/completions'')
                              (Some body_json) of
                         (Inl e, w3) \<Rightarrow>
                           (HTTPException 500 (py ''Internal server error: '' @ exc_str L e),
                            st1, w3)
                       | (Inr response, w3) \<Rightarrow> (JSONResponse response, st1, w3)))))"

text \<open>
  The route: the framework resolves the dependency \<open>verify_api_key\<close> first and calls
  the handler only when it returns.
\<close>

definition post_chat_completions ::
  "Settings \<Rightarrow> libs \<Rightarrow> app_state \<Rightarrow> world \<Rightarrow> inbound \<Rightarrow> http_result \<times> app_state \<times> world" where
  "post_chat_completions S L st w req =
     (case verify_api_key S req of
        Inl exc \<Rightarrow> (exc, st, w)
      | Inr ok \<Rightarrow> chat_completions S L st w req)"

text \<open>The startup half of \<open>lifespan\<close>.\<close>

definition lifespan_startup ::
  "Settings \<Rightarrow> libs \<Rightarrow> app_state \<Rightarrow> world \<Rightarrow> app_state \<times> world" where
  "lifespan_startup S L st w =
     (case create_gonka_client S st w of
        (None, st1, w1) \<Rightarrow> (st1\<lparr>available_models := JList []\<rparr>, w1)
      | (Some client, st1, w1) \<Rightarrow>
          (case get_models L client w1 of
             (Inl e, w2) \<Rightarrow> (st1\<lparr>available_models := JList []\<rparr>, w2)
           | (Inr models, w2) \<Rightarrow> (st1\<lparr>available_models := models\<rparr>, w2)))"

text \<open>
  The life of the process: it starts from \<open>initial_state\<close>, runs the startup once,
  and then serves requests to the route, one after the other.
\<close>

fun serve_all ::
  "Settings \<Rightarrow> libs \<Rightarrow> app_state \<times> world \<Rightarrow> inbound list \<Rightarrow> app_state \<times> world" where
  "serve_all S L (st, w) [] = (st, w)"
| "serve_all S L (st, w) (req # reqs) =
     serve_all S L (snd (post_chat_completions S L st w req)) reqs"

definition run_process :: "Settings \<Rightarrow> libs \<Rightarrow> world \<Rightarrow> inbound list \<Rightarrow> app_state \<times> world" where
  "run_process S L w0 reqs = serve_all S L (lifespan_startup S L initial_state w0) reqs"

section \<open>Concrete instances\<close>

text \<open>
  Stand-ins for the external packages, to run the model on concrete inputs. They are
  neither SHA-256 nor ECDSA: \<open>demo_sha256\<close> pads or cuts its input to 32 bytes, and
  \<open>demo_sign\<close> returns that digest as \<open>r\<close> followed by a 32-byte \<open>s\<close> in the upper half
  of the order, so that the normalisation of \<open>s\<close> is exercised.
\<close>

definition demo_sha256 :: "bytes \<Rightarrow> bytes" where
  "demo_sha256 m = take 32 (m @ replicate 32 0)"

definition demo_sign :: "int \<Rightarrow> bytes \<Rightarrow> (bytes \<Rightarrow> bytes) \<Rightarrow> bytes" where
  "demo_sign sk m hashfunc =
     hashfunc m @ be_bytes 32 (SECP256k1_order - 1 - (sk + from_bytes (hashfunc m)) mod 1000)"

definition demo_dumps :: "json \<Rightarrow> pystr" where
  "demo_dumps v = (case v of JDict [] \<Rightarrow> py ''{}'' | _ \<Rightarrow> py ''{\"stream\": true}'')"

definition demo_loads :: "bytes \<Rightarrow> error + json" where
  "demo_loads bs =
     (if bs = [0x7B, 0x7D] then Inr (JDict [])
      else if bs = [0x4D] then Inr (JDict [(py ''models'', JList [JDict [(py ''id'', JStr (py ''m1''))]])])
      else if bs = [0x53] then Inr (JDict [(py ''stream'', JBool True)])
      else Inl JSONDecodeError)"

definition demo_libs :: libs where
  "demo_libs = \<lparr>sha256 = demo_sha256, sign_deterministic = demo_sign,
                 json_dumps = demo_dumps, json_loads = demo_loads,
                 exc_str = (\<lambda>e. py ''error'')\<rparr>"

definition demo_world :: "nat \<Rightarrow> world" where
  "demo_world status =
     \<lparr>wall_clock = 1700000000000000000,
      perf_clock = (\<lambda>n. 5000 + 10 * int n),
      perf_reads = 0,
      upstream = (\<lambda>n req. Inr \<lparr>status_code = status, body = [[0x4D]], body_error = None\<rparr>),
      sent = [],
      body_reads = 0\<rparr>"

definition demo_key :: pystr where
  "demo_key = py ''0x00000000000000000000000000000000000000000000000000000000000000a7''"

definition demo_client :: GonkaClient where
  "demo_client =
     \<lparr>private_key = demo_key, address = py ''gonka1requester'',
      endpoint = py ''https://node.example/v1'', provider_address = py ''gonka1provider'',
      timeout = default_timeout, wall_base = 1700000000000000000, perf_base = 5000\<rparr>"

definition demo_settings :: Settings where
  "demo_settings =
     \<lparr>gonka_private_key = demo_key, gonka_address = py ''gonka1requester'',
      gonka_endpoint = [], gonka_provider_address = [],
      api_key = py ''sk-test'', host = py ''0.0.0.0'', port = 8000\<rparr>"

text \<open>The headers \<open>demo_client\<close> sends at the hybrid timestamp 1700000000000000000.\<close>

definition demo_headers :: "(pystr \<times> pystr) list" where
  "demo_headers =
     [(py ''Content-Type'', py ''application/json''),
      (py ''Authorization'',
       py ''e30xNzAwMDAwMDAwMDAwMDAwMDAwZ29ua2ExcHJvdmkAAAAAAAAAAAAAAAAAAAAAAAAAAAAAAAAAAAAAAAABOQ==''),
      (py ''X-Requester-Address'', py ''gonka1requester''),
      (py ''X-Timestamp'', py ''1700000000000000000'')]"

section \<open>Facts about the Python primitives\<close>

subsection \<open>Decimal numerals\<close>

lemma digits_ne: "digits n \<noteq> []"
  by (subst digits.simps) simp

lemma digits_all_digit: "\<forall>c\<in>set (digits n). is_digit c"
proof (induction n rule: digits.induct)
  case (1 n)
  show ?case
  proof (cases "n < 10")
    case True
    then show ?thesis by (subst digits.simps) (simp add: is_digit_def)
  next
    case False
    have "n mod 10 < 10" by simp
    then have "is_digit (48 + n mod 10)" unfolding is_digit_def by linarith
    with False 1 show ?thesis by (subst digits.simps) simp
  qed
qed

lemma decimal_value_snoc: "decimal_value (cs @ [c]) = 10 * decimal_value cs + (c - 48)"
  by (simp add: decimal_value_def)

lemma decimal_value_digits: "decimal_value (digits n) = n"
proof (induction n rule: digits.induct)
  case (1 n)
  show ?case
  proof (cases "n < 10")
    case True
    then show ?thesis by (subst digits.simps) (simp add: decimal_value_def)
  next
    case False
    with 1 have "decimal_value (digits (n div 10)) = n div 10" by simp
    with False show ?thesis
      by (subst digits.simps) (simp add: decimal_value_snoc)
  qed
qed


lemma hd_digits: "n \<noteq> 0 \<Longrightarrow> hd (digits n) \<noteq> 48"
proof (induction n rule: digits.induct)
  case (1 n)
  show ?case
  proof (cases "n < 10")
    case True
    with 1(2) show ?thesis by (subst digits.simps) simp
  next
    case False
    then have "n div 10 \<noteq> 0" by simp
    with 1 False have "hd (digits (n div 10)) \<noteq> 48" by simp
    with False show ?thesis
      by (subst digits.simps) (simp add: digits_ne)
  qed
qed

lemma py_str_nonneg: "0 \<le> t \<Longrightarrow> py_str t = digits (nat t)"
  by (simp add: py_str_def)


lemma utf8_encode_ascii: "\<forall>c\<in>set cs. c < 128 \<Longrightarrow> utf8_encode cs = Inr (map of_nat cs)"
  by (induction cs) (simp_all add: utf8_encode_cp_def)

lemma utf8_decode_ascii: "\<forall>b\<in>set bs. b < 0x80 \<Longrightarrow> utf8_decode bs = Inr (map unat bs)"
  by (induction bs) (simp_all add: cons_cp_def)

lemma is_digit_ascii: "is_digit c \<Longrightarrow> c < 128"
  by (simp add: is_digit_def)

lemma utf8_encode_py_str: "0 \<le> t \<Longrightarrow> utf8_encode (py_str t) = Inr (map of_nat (py_str t))"
  using digits_all_digit[of "nat t"] by (intro utf8_encode_ascii) (auto simp: py_str_nonneg dest: is_digit_ascii)

lemma unat_of_nat_byte: "a < 256 \<Longrightarrow> unat (of_nat a :: byte) = a"
  by (simp add: unat_of_nat)

subsection \<open>Base64 and big-endian integers\<close>

lemma unat_byte_lt: "unat (b :: byte) < 256"
  using unsigned_less[of b, where 'a=nat] by simp

lemma b64_char_cases:
  assumes "i < 64"
  obtains "i < 26" "unat (b64_char i) = 65 + i"
        | "26 \<le> i" "i < 52" "unat (b64_char i) = 71 + i"
        | "52 \<le> i" "i < 62" "unat (b64_char i) = i - 4"
        | "i = 62" "unat (b64_char i) = 43"
        | "i = 63" "unat (b64_char i) = 47"
proof -
  consider "i < 26" | "26 \<le> i \<and> i < 52" | "52 \<le> i \<and> i < 62" | "i = 62" | "i = 63"
    using assms by linarith
  then show thesis
  proof cases
    case 1
    then have "b64_char i = of_nat (65 + i)" by (simp add: b64_char_def del: of_nat_add)
    moreover have "unat (of_nat (65 + i) :: byte) = 65 + i"
      using 1 by (intro unat_of_nat_byte) simp
    ultimately show thesis using 1 that(1) by simp
  next
    case 2
    then have "b64_char i = of_nat (71 + i)" by (simp add: b64_char_def del: of_nat_add)
    moreover have "unat (of_nat (71 + i) :: byte) = 71 + i"
      using 2 by (intro unat_of_nat_byte) simp
    ultimately show thesis using 2 that(2) by simp
  next
    case 3
    then have "b64_char i = of_nat (i - 4)" by (simp add: b64_char_def del: of_nat_diff)
    moreover have "unat (of_nat (i - 4) :: byte) = i - 4"
      using 3 by (intro unat_of_nat_byte) arith
    ultimately show thesis using 3 that(3) by simp
  next
    case 4
    then show thesis using that(4) by (simp add: b64_char_def)
  next
    case 5
    then show thesis using that(5) by (simp add: b64_char_def)
  qed
qed

lemma b64_index_char: "i < 64 \<Longrightarrow> b64_index (b64_char i) = Some i"
  by (erule b64_char_cases) (auto simp: b64_index_def Let_def)

lemma b64_char_not_pad: "i < 64 \<Longrightarrow> b64_char i \<noteq> 61"
proof
  assume i: "i < 64" and "b64_char i = 61"
  then have "unat (b64_char i) = 61" by simp
  with i show False by (elim b64_char_cases) simp_all
qed

lemma b64_char_ascii: "i < 64 \<Longrightarrow> b64_char i < 0x80"
  by (erule b64_char_cases) (simp_all add: word_less_nat_alt)

lemma b64decode_quad:
  assumes "i0 < 64" "i1 < 64" "i2 < 64" "i3 < 64"
  shows "b64decode (b64_char i0 # b64_char i1 # b64_char i2 # b64_char i3 # rest) =
    (case b64decode rest of
       None \<Rightarrow> None
     | Some bs \<Rightarrow> Some (of_nat (i0 * 4 + i1 div 16) # of_nat (i1 mod 16 * 16 + i2 div 4)
                        # of_nat (i2 mod 4 * 64 + i3) # bs))"
  using assms by (simp add: b64_index_char b64_char_not_pad del: of_nat_add of_nat_mult)

lemma b64decode_pad1:
  assumes "i0 < 64" "i1 < 64" "i2 < 64"
  shows "b64decode [b64_char i0, b64_char i1, b64_char i2, 61] =
    Some [of_nat (i0 * 4 + i1 div 16), of_nat (i1 mod 16 * 16 + i2 div 4)]"
  using assms by (simp add: b64_index_char b64_char_not_pad del: of_nat_add of_nat_mult)

lemma b64decode_pad2:
  assumes "i0 < 64" "i1 < 64"
  shows "b64decode [b64_char i0, b64_char i1, 61, 61] = Some [of_nat (i0 * 4 + i1 div 16)]"
  using assms by (simp add: b64_index_char b64_char_not_pad del: of_nat_add of_nat_mult)

lemma sextets:
  fixes x y z :: nat
  assumes "x < 256" "y < 256" "z < 256"
  shows "x div 4 < 64" "x mod 4 * 16 < 64" "x mod 4 * 16 + y div 16 < 64"
        "y mod 16 * 4 < 64" "y mod 16 * 4 + z div 64 < 64" "z mod 64 < 64"
  using assms by auto

lemma regroup:
  fixes x y z :: nat
  assumes "x < 256" "y < 256" "z < 256"
  shows "x div 4 * 4 + (x mod 4 * 16 + y div 16) div 16 = x"
        "(x mod 4 * 16 + y div 16) mod 16 * 16 + (y mod 16 * 4 + z div 64) div 4 = y"
        "(y mod 16 * 4 + z div 64) mod 4 * 64 + z mod 64 = z"
        "x div 4 * 4 + (x mod 4 * 16) div 16 = x"
        "(x mod 4 * 16 + y div 16) mod 16 * 16 + (y mod 16 * 4) div 4 = y"
proof -
  have y16: "y div 16 < 16" and z64: "z div 64 < 4"
    using assms by simp_all
  have a: "(x mod 4 * 16 + y div 16) div 16 = x mod 4"
    using y16 by simp
  have b: "(x mod 4 * 16 + y div 16) mod 16 = y div 16"
    using y16 by simp
  have c: "(y mod 16 * 4 + z div 64) div 4 = y mod 16"
    using z64 by simp
  have d: "(y mod 16 * 4 + z div 64) mod 4 = z div 64"
    using z64 by simp
  show "x div 4 * 4 + (x mod 4 * 16 + y div 16) div 16 = x"
    unfolding a by simp
  show "(x mod 4 * 16 + y div 16) mod 16 * 16 + (y mod 16 * 4 + z div 64) div 4 = y"
    unfolding b c by simp
  show "(y mod 16 * 4 + z div 64) mod 4 * 64 + z mod 64 = z"
    unfolding d by simp
  show "x div 4 * 4 + (x mod 4 * 16) div 16 = x"
    by simp
  show "(x mod 4 * 16 + y div 16) mod 16 * 16 + (y mod 16 * 4) div 4 = y"
    unfolding b by simp
qed

lemma of_nat_unat_byte: "(of_nat (unat (b::byte)) :: byte) = b"
  by simp

lemma b64decode_encode: "b64decode (b64encode bs) = Some bs"
proof (induction bs rule: b64encode.induct)
  case 1
  show ?case by simp
next
  case (2 a)
  note s = sextets[OF unat_byte_lt[of a] unat_byte_lt[of a] unat_byte_lt[of a]]
  note r = regroup[OF unat_byte_lt[of a] unat_byte_lt[of a] unat_byte_lt[of a]]
  show ?case
    by (simp only: b64encode.simps b64decode_pad2[OF s(1) s(2)] r of_nat_unat_byte)
next
  case (3 a b)
  note s = sextets[OF unat_byte_lt[of a] unat_byte_lt[of b] unat_byte_lt[of b]]
  note r = regroup[OF unat_byte_lt[of a] unat_byte_lt[of b] unat_byte_lt[of b]]
  show ?case
    by (simp only: b64encode.simps b64decode_pad1[OF s(1) s(3) s(4)] r of_nat_unat_byte)
next
  case (4 a b c rest)
  note s = sextets[OF unat_byte_lt[of a] unat_byte_lt[of b] unat_byte_lt[of c]]
  note r = regroup[OF unat_byte_lt[of a] unat_byte_lt[of b] unat_byte_lt[of c]]
  show ?case
    by (simp only: b64encode.simps append_Cons append_Nil
          b64decode_quad[OF s(1) s(3) s(5) s(6)] 4 option.case r of_nat_unat_byte)
qed

lemma b64encode_ascii: "\<forall>b\<in>set (b64encode bs). b < 0x80"
proof (induction bs rule: b64encode.induct)
  case 1
  show ?case by simp
next
  case (2 a)
  note s = sextets[OF unat_byte_lt[of a] unat_byte_lt[of a] unat_byte_lt[of a]]
  show ?case by (simp add: b64_char_ascii s)
next
  case (3 a b)
  note s = sextets[OF unat_byte_lt[of a] unat_byte_lt[of b] unat_byte_lt[of b]]
  show ?case by (simp add: b64_char_ascii s)
next
  case (4 a b c rest)
  note s = sextets[OF unat_byte_lt[of a] unat_byte_lt[of b] unat_byte_lt[of c]]
  show ?case using 4 by (simp add: b64_char_ascii s)
qed

lemma utf8_decode_b64encode: "utf8_decode (b64encode bs) = Inr (map unat (b64encode bs))"
  by (rule utf8_decode_ascii) (rule b64encode_ascii)

lemma map_of_nat_unat: "map of_nat (map unat (bs :: bytes)) = bs"
  by (induction bs) simp_all

lemma utf8_encode_b64_string:
  "utf8_encode (map unat (b64encode bs)) = Inr (b64encode bs)"
proof -
  have "\<forall>c\<in>set (map unat (b64encode bs)). c < 128"
    using b64encode_ascii[of bs] by (auto simp: word_less_nat_alt)
  then show ?thesis by (simp add: utf8_encode_ascii map_of_nat_unat del: map_map)
qed

lemma from_bytes_snoc: "from_bytes (bs @ [b]) = from_bytes bs * 256 + uint b"
  by (simp add: from_bytes_def)

lemma length_be_bytes: "length (be_bytes k n) = k"
  by (induction k arbitrary: n) simp_all

lemma from_bytes_be_bytes: "0 \<le> n \<Longrightarrow> n < 256 ^ k \<Longrightarrow> from_bytes (be_bytes k n) = n"
proof (induction k arbitrary: n)
  case 0
  then show ?case by (simp add: from_bytes_def)
next
  case (Suc k)
  from Suc.prems have "n < 256 * 256 ^ k" by simp
  then have "n div 256 < 256 ^ k" by linarith
  moreover have "0 \<le> n div 256" using Suc.prems by simp
  ultimately have ih: "from_bytes (be_bytes k (n div 256)) = n div 256"
    using Suc.IH by blast
  have u: "uint (word_of_int (n mod 256) :: byte) = n mod 256"
    by (simp add: uint_word_of_int)
  have "from_bytes (be_bytes (Suc k) n) = n div 256 * 256 + n mod 256"
    unfolding be_bytes.simps from_bytes_snoc ih u ..
  also have "\<dots> = n" by (rule div_mult_mod_eq)
  finally show ?case .
qed

lemma from_bytes_nonneg: "0 \<le> from_bytes bs"
proof (induction bs rule: rev_induct)
  case Nil
  show ?case by (simp add: from_bytes_def)
next
  case (snoc b bs)
  then show ?case by (simp add: from_bytes_snoc)
qed

subsection \<open>Normalisation of \<open>s\<close>\<close>

lemma order_bound: "SECP256k1_order < 256 ^ 32"
  by (simp add: SECP256k1_order_def)

lemma order_odd_half: "SECP256k1_order - SECP256k1_order div 2 = SECP256k1_order div 2 + 1"
  by (simp add: SECP256k1_order_def)

lemma to_bytes_Inr: "to_bytes n k = Inr bs \<Longrightarrow> 0 \<le> n \<and> n < 256 ^ k \<and> bs = be_bytes k n"
  by (auto simp: to_bytes_def split: if_splits)

lemma to_bytes_ok: "0 \<le> n \<Longrightarrow> n < 256 ^ k \<Longrightarrow> to_bytes n k = Inr (be_bytes k n)"
  by (simp add: to_bytes_def)

text \<open>Whatever the library returned, a normalised signature has its \<open>s\<close> in the lower half.\<close>

lemma low_s_half:
  assumes "low_s sig = Inr rs"
  shows "from_bytes (drop 32 rs) \<le> SECP256k1_order div 2"
proof (cases "from_bytes (drop 32 sig) > SECP256k1_order div 2")
  case True
  then obtain s' where s': "to_bytes (SECP256k1_order - from_bytes (drop 32 sig)) 32 = Inr s'"
    and rs: "rs = take 32 sig @ s'"
    using assms by (auto simp: low_s_def Let_def split: sum.splits)
  from True have "drop 32 sig \<noteq> []"
    by (auto simp: from_bytes_def SECP256k1_order_def)
  then have len: "length (take 32 sig) = 32" by simp
  from to_bytes_Inr[OF s'] have nn: "0 \<le> SECP256k1_order - from_bytes (drop 32 sig)"
    and lt: "SECP256k1_order - from_bytes (drop 32 sig) < 256 ^ 32"
    and eq: "s' = be_bytes 32 (SECP256k1_order - from_bytes (drop 32 sig))" by auto
  have "drop 32 rs = s'" using len rs by simp
  then have "from_bytes (drop 32 rs) = SECP256k1_order - from_bytes (drop 32 sig)"
    using from_bytes_be_bytes[OF nn lt] eq by simp
  with True order_odd_half show ?thesis by linarith
next
  case False
  then have rs: "rs = take 32 sig @ drop 32 sig"
    using assms by (auto simp: low_s_def Let_def)
  then have "rs = sig" by simp
  with False show ?thesis by simp
qed

lemma low_s_take: "low_s sig = Inr rs \<Longrightarrow> 32 \<le> length sig \<Longrightarrow> take 32 rs = take 32 sig"
  by (auto simp: low_s_def Let_def split: if_splits sum.splits)

lemma low_s_length: "low_s sig = Inr rs \<Longrightarrow> length sig = 64 \<Longrightarrow> length rs = 64"
  by (auto simp: low_s_def Let_def length_be_bytes split: if_splits sum.splits dest!: to_bytes_Inr)

text \<open>On a well-formed library signature the normalisation never fails.\<close>

lemma low_s_wf:
  assumes len: "length sig = 64" and rng: "from_bytes (drop 32 sig) < SECP256k1_order"
  shows "\<exists>s'. low_s sig = Inr (take 32 sig @ s') \<and> length s' = 32
           \<and> from_bytes s' = (if from_bytes (drop 32 sig) > SECP256k1_order div 2
                               then SECP256k1_order - from_bytes (drop 32 sig)
                               else from_bytes (drop 32 sig))"
proof (cases "from_bytes (drop 32 sig) > SECP256k1_order div 2")
  case True
  let ?n = "SECP256k1_order - from_bytes (drop 32 sig)"
  have nn: "0 \<le> ?n" using rng by simp
  have lt: "?n < 256 ^ 32" using from_bytes_nonneg[of "drop 32 sig"] order_bound by linarith
  have "low_s sig = Inr (take 32 sig @ be_bytes 32 ?n)"
    using True to_bytes_ok[OF nn lt] by (simp add: low_s_def Let_def)
  moreover have "from_bytes (be_bytes 32 ?n) = ?n" by (rule from_bytes_be_bytes[OF nn lt])
  ultimately show ?thesis using True by (auto simp: length_be_bytes)
next
  case False
  then have "low_s sig = Inr (take 32 sig @ drop 32 sig)"
    by (simp add: low_s_def Let_def del: append_take_drop_id)
  moreover have "length (drop 32 sig) = 32" using len by simp
  ultimately show ?thesis using False by (intro exI[of _ "drop 32 sig"]) simp
qed

lemma message_bytes_nonneg:
  assumes "0 \<le> T" "utf8_encode A = Inr a"
  shows "message_bytes P T A = Inr (P @ map of_nat (py_str T) @ a)"
  using assms by (simp add: message_bytes_def utf8_encode_py_str)


lemma sign_payload_Inr:
  assumes "sign_payload L self P T A = Inr str"
  obtains sk msg rs where "signing_key self = Inr sk" "message_bytes P T A = Inr msg"
    "low_s (sign_deterministic L sk msg (sha256 L)) = Inr rs" "str = map unat (b64encode rs)"
  using assms
  by (auto simp: sign_payload_def utf8_decode_b64encode split: sum.splits)

lemma sign_payload_eq:
  assumes "signing_key self = Inr sk" "message_bytes P T A = Inr msg"
    "low_s (sign_deterministic L sk msg (sha256 L)) = Inr rs"
  shows "sign_payload L self P T A = Inr (map unat (b64encode rs))"
  using assms by (simp add: sign_payload_def utf8_decode_b64encode)

subsection \<open>The concrete instances, evaluated\<close>

lemma be_bytes_numeral:
  "be_bytes (numeral k) n = be_bytes (pred_numeral k) (n div 256) @ [of_int (n mod 256)]"
  by (simp add: numeral_eq_Suc)

lemma replicate_numeral':
  "replicate (numeral k) x = x # replicate (pred_numeral k) x"
  by (simp add: numeral_eq_Suc)

lemma demo_signing_key: "signing_key demo_client = Inr 167"
  by (simp add: signing_key_def demo_client_def demo_key_def strip_0x_def startswith_def py_def
      hex_val_def is_space_def SigningKey_from_string_def from_bytes_def SECP256k1_order_def)

lemma demo_address: "utf8_encode (py ''gonka1provider'') = Inr (map of_nat (py ''gonka1provider''))"
  by (simp add: py_def utf8_encode_cp_def)

lemma demo_sign_length: "length (demo_sign sk m demo_sha256) = 64"
  by (simp add: demo_sign_def demo_sha256_def length_be_bytes)

lemma demo_sign_range: "from_bytes (drop 32 (demo_sign sk m demo_sha256)) < SECP256k1_order"
proof -
  let ?n = "SECP256k1_order - 1 - (sk + from_bytes (demo_sha256 m)) mod 1000"
  have nn: "0 \<le> ?n" by (simp add: SECP256k1_order_def)
  have lt: "?n < SECP256k1_order" by simp
  then have "?n < 256 ^ 32" using order_bound by linarith
  with nn have "from_bytes (be_bytes 32 ?n) = ?n" by (rule from_bytes_be_bytes)
  moreover have "drop 32 (demo_sign sk m demo_sha256) = be_bytes 32 ?n"
    by (simp add: demo_sign_def demo_sha256_def)
  ultimately show ?thesis using lt by simp
qed

lemma demo_message_123:
  "message_bytes [0x7B, 0x7D] 1700000000000000123 (py ''gonka1provider'')
     = Inr (map of_nat (py ''{}1700000000000000123gonka1provider''))"
  by (simp add: message_bytes_def py_str_def digits.simps py_def utf8_encode_cp_def)

lemma demo_message_124:
  "message_bytes [0x7B, 0x7D] 1700000000000000124 (py ''gonka1provider'')
     = Inr (map of_nat (py ''{}1700000000000000124gonka1provider''))"
  by (simp add: message_bytes_def py_str_def digits.simps py_def utf8_encode_cp_def)

lemma demo_low_s_123:
  "low_s (sign_deterministic demo_libs 167
       (map of_nat (py ''{}1700000000000000123gonka1provider'')) (sha256 demo_libs))
     = Inr (map of_nat (py ''{}1700000000000000123gonka1provi'') @ replicate 31 0 @ [169])"
  by (simp add: low_s_def demo_libs_def demo_sign_def demo_sha256_def py_def from_bytes_def
      SECP256k1_order_def to_bytes_def be_bytes_numeral replicate_numeral' Let_def)


lemma demo_signature_123:
  "sign_payload demo_libs demo_client [0x7B, 0x7D] 1700000000000000123 (py ''gonka1provider'')
     = Inr (py ''e30xNzAwMDAwMDAwMDAwMDAwMTIzZ29ua2ExcHJvdmkAAAAAAAAAAAAAAAAAAAAAAAAAAAAAAAAAAAAAAAAAqQ=='')"
  by (subst sign_payload_eq[OF demo_signing_key demo_message_123 demo_low_s_123])
     (simp add: py_def b64_char_def replicate_numeral')

section \<open>Claims about signing\<close>

lemma py_str_props:
  assumes "0 \<le> T"
  shows "(\<forall>c\<in>set (py_str T). is_digit c) \<and> decimal_value (py_str T) = nat T
         \<and> (T \<noteq> 0 \<longrightarrow> hd (py_str T) \<noteq> 48)"
  using assms digits_all_digit[of "nat T"] hd_digits[of "nat T"]
  by (simp add: py_str_nonneg decimal_value_digits)

text \<open>
  Claim C1. For a client whose key parses, a non-negative timestamp \<open>T\<close> and an address
  whose UTF-8 encoding is \<open>a\<close>, the message handed to the signing primitive, with
  SHA-256 as its hash, is exactly \<open>P @ decimal digits of T @ a\<close>. The decimal string
  consists of digits only, denotes \<open>T\<close>, and has no leading zero unless \<open>T = 0\<close>.
  When the primitive returns a well-formed raw signature (64 bytes, \<open>s\<close> below the
  order), the result is the base64 text of 64 bytes: the 32 bytes of \<open>r\<close> as the
  primitive gave them, followed by 32 bytes holding, big-endian, \<open>s\<close> brought to the
  lower half of the order; decoding the text gives those 64 bytes back.
\<close>

theorem sign_payload_canonical_message:
  assumes key: "signing_key self = Inr sk"
    and T: "0 \<le> T"
    and A: "utf8_encode A = Inr a"
    and sig: "sig = sign_deterministic L sk (P @ map of_nat (py_str T) @ a) (sha256 L)"
    and len: "length sig = 64"
    and rng: "from_bytes (drop 32 sig) < SECP256k1_order"
  shows "\<exists>rs. sign_payload L self P T A = Inr (map unat (b64encode rs))
           \<and> decode_signature (map unat (b64encode rs)) = Some rs
           \<and> length rs = 64
           \<and> take 32 rs = take 32 sig
           \<and> from_bytes (drop 32 rs) =
               (if from_bytes (drop 32 sig) > SECP256k1_order div 2
                then SECP256k1_order - from_bytes (drop 32 sig)
                else from_bytes (drop 32 sig))
           \<and> (\<forall>c\<in>set (py_str T). is_digit c)
           \<and> decimal_value (py_str T) = nat T
           \<and> (T \<noteq> 0 \<longrightarrow> hd (py_str T) \<noteq> 48)"
proof -
  from low_s_wf[OF len rng] obtain s' where
    ls: "low_s sig = Inr (take 32 sig @ s')" and l32: "length s' = 32"
    and val: "from_bytes s' = (if from_bytes (drop 32 sig) > SECP256k1_order div 2
                               then SECP256k1_order - from_bytes (drop 32 sig)
                               else from_bytes (drop 32 sig))"
    by blast
  let ?rs = "take 32 sig @ s'"
  have msg: "message_bytes P T A = Inr (P @ map of_nat (py_str T) @ a)"
    by (rule message_bytes_nonneg[OF T A])
  have "sign_payload L self P T A = Inr (map unat (b64encode ?rs))"
    using ls by (intro sign_payload_eq[OF key msg]) (simp add: sig)
  moreover have "decode_signature (map unat (b64encode ?rs)) = Some ?rs"
    by (simp add: decode_signature_def utf8_encode_b64_string b64decode_encode)
  moreover have "length ?rs = 64" using len l32 by simp
  moreover have "take 32 ?rs = take 32 sig" using len by simp
  moreover have "drop 32 ?rs = s'" using len by simp
  ultimately show ?thesis using val py_str_props[OF T] by (intro exI[of _ ?rs]) simp
qed

theorem sign_payload_canonical_message_witness:
  "signing_key demo_client = Inr 167
   \<and> (0::int) \<le> 1700000000000000123
   \<and> utf8_encode (py ''gonka1provider'') = Inr (map of_nat (py ''gonka1provider''))
   \<and> length (sign_deterministic demo_libs 167
         ([0x7B, 0x7D] @ map of_nat (py_str 1700000000000000123)
            @ map of_nat (py ''gonka1provider'')) (sha256 demo_libs)) = 64
   \<and> from_bytes (drop 32 (sign_deterministic demo_libs 167
         ([0x7B, 0x7D] @ map of_nat (py_str 1700000000000000123)
            @ map of_nat (py ''gonka1provider'')) (sha256 demo_libs))) < SECP256k1_order
   \<and> (\<exists>rs. sign_payload demo_libs demo_client [0x7B, 0x7D] 1700000000000000123
               (py ''gonka1provider'') = Inr (map unat (b64encode rs))
         \<and> decode_signature (map unat (b64encode rs)) = Some rs
         \<and> length rs = 64
         \<and> take 32 rs = take 32 (sign_deterministic demo_libs 167
              ([0x7B, 0x7D] @ map of_nat (py_str 1700000000000000123)
                 @ map of_nat (py ''gonka1provider'')) (sha256 demo_libs))
         \<and> from_bytes (drop 32 rs) \<le> SECP256k1_order div 2
         \<and> decimal_value (py_str 1700000000000000123) = 1700000000000000123)"
proof -
  have t: "(0::int) \<le> 1700000000000000123" by simp
  let ?sig = "sign_deterministic demo_libs 167
         ([0x7B, 0x7D] @ map of_nat (py_str 1700000000000000123)
            @ map of_nat (py ''gonka1provider'')) (sha256 demo_libs)"
  have l: "length ?sig = 64"
    by (simp add: demo_libs_def demo_sign_length)
  have r: "from_bytes (drop 32 ?sig) < SECP256k1_order"
    by (simp add: demo_libs_def demo_sign_range)
  from sign_payload_canonical_message[OF demo_signing_key t demo_address refl l r]
  obtain rs where rs: "sign_payload demo_libs demo_client [0x7B, 0x7D] 1700000000000000123
               (py ''gonka1provider'') = Inr (map unat (b64encode rs))"
      "decode_signature (map unat (b64encode rs)) = Some rs"
      "length rs = 64" "take 32 rs = take 32 ?sig"
      "from_bytes (drop 32 rs) =
         (if from_bytes (drop 32 ?sig) > SECP256k1_order div 2
          then SECP256k1_order - from_bytes (drop 32 ?sig)
          else from_bytes (drop 32 ?sig))"
      "decimal_value (py_str 1700000000000000123) = nat 1700000000000000123"
    by blast
  have "from_bytes (drop 32 rs) \<le> SECP256k1_order div 2"
    using rs(5) order_odd_half by (auto split: if_splits)
  with rs show ?thesis using demo_signing_key demo_address l r by auto
qed

text \<open>
  Claim C2. Every signature string the signing operation returns decodes from base64
  to bytes whose part after the first 32 (the \<open>s\<close> component), read big-endian, is at
  most half the order of secp256k1. When the primitive returned 64 bytes, the decoded
  signature has 64 bytes too, so that part is its last 32 bytes, and the first 32 are
  the primitive's \<open>r\<close>.
\<close>

theorem sign_payload_low_s:
  assumes "sign_payload L self P T A = Inr str"
  shows "\<exists>raw sk msg. decode_signature str = Some raw
           \<and> from_bytes (drop 32 raw) \<le> SECP256k1_order div 2
           \<and> signing_key self = Inr sk \<and> message_bytes P T A = Inr msg
           \<and> (length (sign_deterministic L sk msg (sha256 L)) = 64 \<longrightarrow>
                length raw = 64
                \<and> take 32 raw = take 32 (sign_deterministic L sk msg (sha256 L)))"
proof -
  from assms obtain sk msg rs where key: "signing_key self = Inr sk"
    and msg: "message_bytes P T A = Inr msg"
    and ls: "low_s (sign_deterministic L sk msg (sha256 L)) = Inr rs"
    and str: "str = map unat (b64encode rs)"
    by (rule sign_payload_Inr)
  have "decode_signature str = Some rs"
    by (simp add: str decode_signature_def utf8_encode_b64_string b64decode_encode)
  moreover have "from_bytes (drop 32 rs) \<le> SECP256k1_order div 2"
    by (rule low_s_half[OF ls])
  moreover have "length (sign_deterministic L sk msg (sha256 L)) = 64 \<longrightarrow>
      length rs = 64 \<and> take 32 rs = take 32 (sign_deterministic L sk msg (sha256 L))"
    using low_s_length[OF ls] low_s_take[OF ls] by simp
  ultimately show ?thesis using key msg by blast
qed

theorem sign_payload_low_s_witness:
  "sign_payload demo_libs demo_client [0x7B, 0x7D] 1700000000000000123 (py ''gonka1provider'')
     = Inr (py ''e30xNzAwMDAwMDAwMDAwMDAwMTIzZ29ua2ExcHJvdmkAAAAAAAAAAAAAAAAAAAAAAAAAAAAAAAAAAAAAAAAAqQ=='')
   \<and> (\<exists>raw sk msg.
         decode_signature
           (py ''e30xNzAwMDAwMDAwMDAwMDAwMTIzZ29ua2ExcHJvdmkAAAAAAAAAAAAAAAAAAAAAAAAAAAAAAAAAAAAAAAAAqQ=='')
           = Some raw
         \<and> from_bytes (drop 32 raw) \<le> SECP256k1_order div 2
         \<and> signing_key demo_client = Inr sk
         \<and> message_bytes [0x7B, 0x7D] 1700000000000000123 (py ''gonka1provider'') = Inr msg
         \<and> (length (sign_deterministic demo_libs sk msg (sha256 demo_libs)) = 64 \<longrightarrow>
               length raw = 64
               \<and> take 32 raw = take 32 (sign_deterministic demo_libs sk msg (sha256 demo_libs))))"
  by (rule conjI[OF demo_signature_123 sign_payload_low_s[OF demo_signature_123]])

text \<open>
  Claim C3. The signature depends on the client only through its private key, and on
  nothing but the payload, the timestamp and the address besides: two invocations on
  the same triple, by clients holding the same key, return the same string, whatever
  the clocks read and whatever else the clients hold. No random source is consulted.
\<close>

theorem sign_payload_deterministic:
  assumes "private_key self1 = private_key self2"
  shows "sign_payload L self1 P T A = sign_payload L self2 P T A"
  using assms by (simp add: sign_payload_def signing_key_def)

theorem sign_payload_deterministic_witness:
  "private_key demo_client = private_key (demo_client\<lparr>wall_base := 0, perf_base := 7\<rparr>)
   \<and> sign_payload demo_libs demo_client [0x7B, 0x7D] 1700000000000000123 (py ''gonka1provider'')
       = sign_payload demo_libs (demo_client\<lparr>wall_base := 0, perf_base := 7\<rparr>)
           [0x7B, 0x7D] 1700000000000000123 (py ''gonka1provider'')"
proof -
  have k: "private_key demo_client = private_key (demo_client\<lparr>wall_base := 0, perf_base := 7\<rparr>)"
    by simp
  from sign_payload_deterministic[OF k] show ?thesis using k by blast
qed






lemma finite_bytes_64: "finite {rs :: bytes. length rs = 64}"
  using finite_lists_length_eq[of "UNIV :: byte set" 64] by simp

text \<open>
  No signing primitive whose signatures have 64 bytes, with \<open>s\<close> below the group order
  (as \<open>sigencode_string\<close> of the \<open>ecdsa\<close> package on SECP256k1 has them), gives every
  timestamp a signature of its own: there are infinitely many non-negative timestamps
  and finitely many strings of 64 bytes. So for every key, payload and address some two
  distinct timestamps are signed to the same string.
\<close>

lemma signature_collision_exists:
  assumes key: "signing_key self = Inr sk" and A: "utf8_encode A = Inr a"
    and wf: "\<And>T. 0 \<le> T \<Longrightarrow>
       length (sign_deterministic L sk (P @ map of_nat (py_str T) @ a) (sha256 L)) = 64
       \<and> from_bytes (drop 32 (sign_deterministic L sk (P @ map of_nat (py_str T) @ a)
                                (sha256 L))) < SECP256k1_order"
  shows "\<exists>T1 T2 str. 0 \<le> T1 \<and> 0 \<le> T2 \<and> T1 \<noteq> T2
           \<and> sign_payload L self P T1 A = Inr str \<and> sign_payload L self P T2 A = Inr str"
proof -
  let ?g = "\<lambda>T. sign_payload L self P T A"
  let ?B = "(\<lambda>rs. Inr (map unat (b64encode rs)) :: error + pystr) ` {rs :: bytes. length rs = 64}"
  have fin: "finite ?B" using finite_bytes_64 by (rule finite_imageI)
  have sub: "?g ` {0..} \<subseteq> ?B"
  proof
    fix y assume "y \<in> ?g ` {0..}"
    then obtain T where T: "0 \<le> T" and y: "y = ?g T" by auto
    let ?sig = "sign_deterministic L sk (P @ map of_nat (py_str T) @ a) (sha256 L)"
    from wf[OF T] have len: "length ?sig = 64"
      and rng: "from_bytes (drop 32 ?sig) < SECP256k1_order" by simp_all
    from low_s_wf[OF len rng] obtain s' where
      ls: "low_s ?sig = Inr (take 32 ?sig @ s')" and l32: "length s' = 32" by blast
    have "?g T = Inr (map unat (b64encode (take 32 ?sig @ s')))"
      by (rule sign_payload_eq[OF key message_bytes_nonneg[OF T A] ls])
    moreover have "length (take 32 ?sig @ s') = 64" using len l32 by simp
    ultimately show "y \<in> ?B" using y by blast
  qed
  have "\<not> inj_on ?g {0..}"
  proof
    assume "inj_on ?g {0..}"
    moreover have "finite (?g ` {0..})" using sub fin by (rule finite_subset)
    ultimately have "finite {0::int ..}" by (rule finite_imageD[rotated])
    then show False by (simp add: infinite_Ici)
  qed
  then obtain T1 T2 where t: "0 \<le> T1" "0 \<le> T2" "T1 \<noteq> T2" "?g T1 = ?g T2"
    by (auto simp: inj_on_def)
  from sub t(1) have "?g T1 \<in> ?B" by blast
  then obtain str where "?g T1 = Inr str" by blast
  with t show ?thesis by metis
qed








lemma fromhex_nonhex:
  "\<exists>c\<in>set cs. hex_val c = None \<and> \<not> is_space c \<Longrightarrow> fromhex cs = Inl ValueError"
proof (induction cs rule: fromhex.induct)
  case 1
  then show ?case by simp
next
  case (2 c cs)
  show ?case
  proof (cases "is_space c")
    case True
    with 2 show ?thesis by auto
  next
    case False
    show ?thesis
    proof (cases "hex_val c")
      case None
      with False show ?thesis by simp
    next
      case (Some hi)
      show ?thesis
      proof (cases cs)
        case Nil
        with False Some show ?thesis by simp
      next
        case (Cons d ds)
        show ?thesis
        proof (cases "hex_val d")
          case None
          with False Some Cons show ?thesis by simp
        next
          case lo: (Some lo)
          from 2(3) Some lo Cons have "\<exists>c\<in>set ds. hex_val c = None \<and> \<not> is_space c"
            by auto
          then have "fromhex ds = Inl ValueError"
            by (rule 2(2)[OF False Some Cons lo])
          with False Some Cons lo show ?thesis by simp
        qed
      qed
    qed
  qed
qed

lemma fromhex_length:
  "\<forall>c\<in>set cs. hex_val c \<noteq> None \<Longrightarrow> fromhex cs = Inr bs \<Longrightarrow> length cs = 2 * length bs"
proof (induction cs arbitrary: bs rule: fromhex.induct)
  case 1
  then show ?case by simp
next
  case (2 c cs)
  from 2(3) have ns: "\<not> is_space c" by (auto simp: is_space_def hex_val_def)
  from 2(3) obtain hi where hi: "hex_val c = Some hi" by auto
  from 2(4) ns hi obtain d ds where cs: "cs = d # ds" by (cases cs) auto
  from 2(3) cs obtain lo where lo: "hex_val d = Some lo" by auto
  from 2(4) ns hi cs lo obtain rest where rest: "fromhex ds = Inr rest"
    and bs: "bs = of_nat (16 * hi + lo) # rest"
    by (auto split: sum.splits)
  have "length ds = 2 * length rest"
    using 2(2)[OF ns hi cs lo _ rest] 2(3) cs by simp
  with cs bs show ?case by simp
qed

lemma fromhex_error: "fromhex cs = Inl e \<Longrightarrow> e = ValueError"
proof (induction cs rule: fromhex.induct)
  case 1
  then show ?case by simp
next
  case (2 c cs)
  then show ?case
    by (auto split: if_splits option.splits list.splits sum.splits)
qed

lemma signing_key_Inl: "signing_key self = Inl e \<Longrightarrow> sign_payload L self P T A = Inl e"
  by (simp add: sign_payload_def)

text \<open>
  Claim C6, as the code has it. The constructor stores the private key as it is given
  and cannot fail on it: the key is parsed inside every signing operation. There, a
  key (after an optional \<open>0x\<close>) that contains a character that is neither a
  hexadecimal digit nor ASCII whitespace fails with \<open>ValueError\<close>, and a key made of
  hexadecimal digits whose number is not 64 fails with \<open>ValueError\<close> or with the
  \<open>MalformedPointError\<close> of the \<open>ecdsa\<close> package. The claim as written (a
  \<open>ConfigurationError\<close> at construction, never a first failure at signing) does not
  hold, as the example after the next two theorems shows.
\<close>

theorem malformed_key_fails_at_signing:
  "private_key (fst (GonkaClient_init w k a e p t)) = k
   \<and> ((\<exists>c\<in>set (strip_0x k). hex_val c = None \<and> \<not> is_space c) \<longrightarrow>
        sign_payload L (fst (GonkaClient_init w k a e p t)) P T A = Inl ValueError)
   \<and> ((\<forall>c\<in>set (strip_0x k). hex_val c \<noteq> None) \<and> length (strip_0x k) \<noteq> 64 \<longrightarrow>
        sign_payload L (fst (GonkaClient_init w k a e p t)) P T A = Inl ValueError
        \<or> sign_payload L (fst (GonkaClient_init w k a e p t)) P T A = Inl MalformedPointError)"
proof -
  let ?self = "fst (GonkaClient_init w k a e p t)"
  have pk: "private_key ?self = k"
    by (simp add: GonkaClient_init_def perf_counter_ns_def Let_def)
  have nonhex: "sign_payload L ?self P T A = Inl ValueError"
    if "\<exists>c\<in>set (strip_0x k). hex_val c = None \<and> \<not> is_space c"
  proof -
    have "signing_key ?self = Inl ValueError"
      using fromhex_nonhex[OF that] by (simp add: signing_key_def pk)
    then show ?thesis by (rule signing_key_Inl)
  qed
  have wronglen: "sign_payload L ?self P T A = Inl ValueError
        \<or> sign_payload L ?self P T A = Inl MalformedPointError"
    if h: "\<forall>c\<in>set (strip_0x k). hex_val c \<noteq> None" and l: "length (strip_0x k) \<noteq> 64"
  proof (cases "fromhex (strip_0x k)")
    case (Inl err)
    then have "signing_key ?self = Inl ValueError"
      using fromhex_error[OF Inl] by (simp add: signing_key_def pk)
    then show ?thesis using signing_key_Inl by blast
  next
    case (Inr kb)
    from fromhex_length[OF h Inr] l have "length kb \<noteq> 32" by auto
    then have "signing_key ?self = Inl MalformedPointError"
      using Inr by (simp add: signing_key_def pk SigningKey_from_string_def)
    then show ?thesis using signing_key_Inl by blast
  qed
  from pk nonhex wronglen show ?thesis by blast
qed

theorem malformed_key_fails_at_signing_witness:
  "strip_0x (py ''0xzz'') = [122, 122] \<and> hex_val 122 = None \<and> \<not> is_space 122
   \<and> sign_payload demo_libs
        (fst (GonkaClient_init (demo_world 200) (py ''0xzz'') (py ''gonka1requester'')
           (py ''https://node.example/v1/'') (py ''gonka1provider'') default_timeout))
        [0x7B, 0x7D] 1700000000000000123 (py ''gonka1provider'') = Inl ValueError
   \<and> strip_0x (py ''a7'') = [97, 55] \<and> hex_val 97 = Some 10 \<and> hex_val 55 = Some 7
   \<and> (sign_payload demo_libs
        (fst (GonkaClient_init (demo_world 200) (py ''a7'') (py ''gonka1requester'')
           (py ''https://node.example/v1/'') (py ''gonka1provider'') default_timeout))
        [0x7B, 0x7D] 1700000000000000123 (py ''gonka1provider'') = Inl ValueError
      \<or> sign_payload demo_libs
        (fst (GonkaClient_init (demo_world 200) (py ''a7'') (py ''gonka1requester'')
           (py ''https://node.example/v1/'') (py ''gonka1provider'') default_timeout))
        [0x7B, 0x7D] 1700000000000000123 (py ''gonka1provider'') = Inl MalformedPointError)"
proof -
  have z: "strip_0x (py ''0xzz'') = [122, 122]" "hex_val 122 = None" "\<not> is_space 122"
    by (simp_all add: strip_0x_def startswith_def py_def hex_val_def is_space_def)
  have h: "strip_0x (py ''a7'') = [97, 55]" "hex_val 97 = Some 10" "hex_val 55 = Some 7"
    by (simp_all add: strip_0x_def startswith_def py_def hex_val_def)
  have a: "\<exists>c\<in>set (strip_0x (py ''0xzz'')). hex_val c = None \<and> \<not> is_space c"
    using z by simp
  have b: "(\<forall>c\<in>set (strip_0x (py ''a7'')). hex_val c \<noteq> None)
           \<and> length (strip_0x (py ''a7'')) \<noteq> 64"
    using h by simp
  from a b
    malformed_key_fails_at_signing[of "demo_world 200" "py ''0xzz''" "py ''gonka1requester''"
      "py ''https://node.example/v1/''" "py ''gonka1provider''" default_timeout demo_libs
      "[0x7B, 0x7D]" 1700000000000000123 "py ''gonka1provider''"]
    malformed_key_fails_at_signing[of "demo_world 200" "py ''a7''" "py ''gonka1requester''"
      "py ''https://node.example/v1/''" "py ''gonka1provider''" default_timeout demo_libs
      "[0x7B, 0x7D]" 1700000000000000123 "py ''gonka1provider''"]
  have "sign_payload demo_libs
        (fst (GonkaClient_init (demo_world 200) (py ''0xzz'') (py ''gonka1requester'')
           (py ''https://node.example/v1/'') (py ''gonka1provider'') default_timeout))
        [0x7B, 0x7D] 1700000000000000123 (py ''gonka1provider'') = Inl ValueError"
    and "sign_payload demo_libs
        (fst (GonkaClient_init (demo_world 200) (py ''a7'') (py ''gonka1requester'')
           (py ''https://node.example/v1/'') (py ''gonka1provider'') default_timeout))
        [0x7B, 0x7D] 1700000000000000123 (py ''gonka1provider'') = Inl ValueError
      \<or> sign_payload demo_libs
        (fst (GonkaClient_init (demo_world 200) (py ''a7'') (py ''gonka1requester'')
           (py ''https://node.example/v1/'') (py ''gonka1provider'') default_timeout))
        [0x7B, 0x7D] 1700000000000000123 (py ''gonka1provider'') = Inl MalformedPointError"
    by blast+
  with z h show ?thesis by blast
qed

text \<open>
  The claim C6 as written fails at the key \<open>zz\<close>: the constructor returns a client
  holding that key, and the first failure is the \<open>ValueError\<close> of the signing
  operation.
\<close>

theorem malformed_key_counterexample:
  "private_key (fst (GonkaClient_init (demo_world 200) (py ''zz'') (py ''gonka1requester'')
       (py ''https://node.example/v1/'') (py ''gonka1provider'') default_timeout)) = py ''zz''
   \<and> sign_payload demo_libs
        (fst (GonkaClient_init (demo_world 200) (py ''zz'') (py ''gonka1requester'')
           (py ''https://node.example/v1/'') (py ''gonka1provider'') default_timeout))
        [0x7B, 0x7D] 1700000000000000123 (py ''gonka1provider'') = Inl ValueError"
  by (simp add: GonkaClient_init_def perf_counter_ns_def Let_def sign_payload_def
      signing_key_def strip_0x_def startswith_def py_def hex_val_def is_space_def)

section \<open>Claims about the clock\<close>

lemma hybrid_timestamp_ns_eq:
  "hybrid_timestamp_ns self w =
     (wall_base self + (perf_clock w (perf_reads w) - perf_base self),
      w\<lparr>perf_reads := Suc (perf_reads w)\<rparr>)"
  by (simp add: hybrid_timestamp_ns_def perf_counter_ns_def)

lemma hybrid_calls_lower:
  assumes "mono (perf_clock w)"
  shows "\<forall>t\<in>set (hybrid_calls self w evs).
           wall_base self + (perf_clock w (perf_reads w) - perf_base self) \<le> t"
  using assms
proof (induction evs arbitrary: w)
  case Nil
  show ?case by simp
next
  case (Cons ev evs)
  obtain wall k where ev: "ev = (wall, k)" by (cases ev)
  let ?w' = "w\<lparr>wall_clock := wall, perf_reads := Suc (perf_reads w + k)\<rparr>"
  have m: "mono (perf_clock ?w')" using Cons.prems by simp
  have a: "perf_clock w (perf_reads w) \<le> perf_clock w (perf_reads w + k)"
    using Cons.prems by (simp add: monoD)
  have b: "perf_clock w (perf_reads w) \<le> perf_clock w (Suc (perf_reads w + k))"
    using Cons.prems by (simp add: monoD)
  from Cons.IH[OF m, of ] b a show ?case
    by (auto simp: ev hybrid_timestamp_ns_eq)
qed

lemma hybrid_calls_sorted:
  assumes "mono (perf_clock w)"
  shows "sorted (hybrid_calls self w evs)"
  using assms
proof (induction evs arbitrary: w)
  case Nil
  show ?case by simp
next
  case (Cons ev evs)
  obtain wall k where ev: "ev = (wall, k)" by (cases ev)
  let ?w' = "w\<lparr>wall_clock := wall, perf_reads := Suc (perf_reads w + k)\<rparr>"
  have m: "mono (perf_clock ?w')" using Cons.prems by simp
  have c: "perf_clock w (perf_reads w + k) \<le> perf_clock w (Suc (perf_reads w + k))"
    using Cons.prems by (simp add: monoD)
  from hybrid_calls_lower[OF m, of self evs] c Cons.IH[OF m]
  show ?case by (auto simp: ev hybrid_timestamp_ns_eq)
qed

lemma hybrid_calls_wall_independent:
  "map snd evs = map snd evs' \<Longrightarrow> perf_clock w = perf_clock v \<Longrightarrow> perf_reads w = perf_reads v
     \<Longrightarrow> hybrid_calls self w evs = hybrid_calls self v evs'"
proof (induction evs arbitrary: evs' w v)
  case Nil
  then show ?case by simp
next
  case (Cons ev evs)
  then obtain ev' rest where e': "evs' = ev' # rest" by (cases evs') auto
  obtain wall k where ev: "ev = (wall, k)" by (cases ev)
  obtain wall' k' where ev': "ev' = (wall', k')" by (cases ev')
  from Cons.prems(1) e' ev ev' have k: "k = k'" and r: "map snd evs = map snd rest" by auto
  have "hybrid_calls self (w\<lparr>wall_clock := wall, perf_reads := Suc (perf_reads w + k)\<rparr>) evs
      = hybrid_calls self (v\<lparr>wall_clock := wall', perf_reads := Suc (perf_reads v + k)\<rparr>) rest"
    using Cons.prems(2,3) by (intro Cons.IH[OF r]) simp_all
  then show ?case using Cons.prems(2,3) by (simp add: e' ev ev' k hybrid_timestamp_ns_eq)
qed

text \<open>
  Claim C5. Take any run of calls of the hybrid-timestamp operation on one client,
  with arbitrary wall-clock adjustments and arbitrary other readings of the monotonic
  clock in between. If the monotonic clock never goes back, each call returns at least
  what every earlier call returned (the results are sorted); and the results are the
  same whatever values the wall clock was set to after the client was initialised.
\<close>

theorem hybrid_timestamp_monotonic:
  assumes "mono (perf_clock w)"
  shows "sorted (hybrid_calls self w evs)
         \<and> (map snd evs = map snd evs' \<longrightarrow> hybrid_calls self w evs = hybrid_calls self w evs')"
  using hybrid_calls_sorted[OF assms] hybrid_calls_wall_independent by blast

theorem hybrid_timestamp_monotonic_witness:
  "mono (perf_clock (demo_world 200))
   \<and> hybrid_calls demo_client (demo_world 200) [(1700000000000000000, 0), (5, 3), (1800000000000000000, 0)]
       = [1700000000000000000, 1700000000000000040, 1700000000000000050]
   \<and> sorted (hybrid_calls demo_client (demo_world 200)
        [(1700000000000000000, 0), (5, 3), (1800000000000000000, 0)])
   \<and> hybrid_calls demo_client (demo_world 200) [(1700000000000000000, 0), (5, 3), (1800000000000000000, 0)]
       = hybrid_calls demo_client (demo_world 200) [(0, 0), (0, 3), (0, 0)]"
proof -
  have m: "mono (perf_clock (demo_world 200))"
    by (simp add: demo_world_def mono_def)
  have e: "hybrid_calls demo_client (demo_world 200)
        [(1700000000000000000, 0), (5, 3), (1800000000000000000, 0)]
       = [1700000000000000000, 1700000000000000040, 1700000000000000050]"
    by (simp add: hybrid_timestamp_ns_eq demo_world_def demo_client_def)
  from hybrid_timestamp_monotonic[OF m, of demo_client
      "[(1700000000000000000, 0), (5, 3), (1800000000000000000, 0)]" "[(0, 0), (0, 3), (0, 0)]"]
  show ?thesis using m e by simp
qed

section \<open>Claims about outbound requests\<close>

lemma prepare_request_Inr:
  assumes "prepare_request L self w payload = (Inr (pb, hs), w1)"
  shows "\<exists>sig. w1 = snd (hybrid_timestamp_ns self w)
     \<and> sign_payload L self pb (fst (hybrid_timestamp_ns self w)) (provider_address self) = Inr sig
     \<and> hs = [(py ''Content-Type'', py ''application/json''),
              (py ''Authorization'', sig),
              (py ''X-Requester-Address'', address self),
              (py ''X-Timestamp'', py_str (fst (hybrid_timestamp_ns self w)))]"
  using assms
  by (auto simp: prepare_request_def Let_def split: sum.splits prod.splits)

lemma prepare_request_Inl:
  assumes "prepare_request L self w payload = (Inl e, w1)"
  shows "sent w1 = sent w \<and> perf_reads w1 \<le> Suc (perf_reads w) \<and> body_reads w1 = body_reads w"
  using assms
  by (auto simp: prepare_request_def Let_def hybrid_timestamp_ns_eq split: sum.splits prod.splits)

lemma header_lookup:
  "map_of [(py ''Content-Type'', ct), (py ''Authorization'', sig),
           (py ''X-Requester-Address'', addr), (py ''X-Timestamp'', ts)] (py ''X-Timestamp'')
     = Some ts"
  "map_of [(py ''Content-Type'', ct), (py ''Authorization'', sig),
           (py ''X-Requester-Address'', addr), (py ''X-Timestamp'', ts)] (py ''Authorization'')
     = Some sig"
  by (simp_all add: py_def)

lemma client_request_world:
  "snd (client_request w req) = w \<or> snd (client_request w req) = w\<lparr>sent := sent w @ [req]\<rparr>"
  by (simp add: client_request_def Let_def split: sum.splits option.splits)

lemma request_cases:
  obtains (failed) e w1 where "prepare_request L self w payload = (Inl e, w1)"
      "snd (request L self w method path payload) = w1"
  | (unsent) pb hs w1 where "prepare_request L self w payload = (Inr (pb, hs), w1)"
      "snd (request L self w method path payload) = w1"
  | (sent) pb hs w1 where "prepare_request L self w payload = (Inr (pb, hs), w1)"
      "snd (request L self w method path payload)
         = w1\<lparr>sent := sent w1 @ [\<lparr>out_method = method, out_url = endpoint self @ path,
                                    out_headers = hs, out_content = pb\<rparr>]\<rparr>"
proof (cases "prepare_request L self w payload")
  case (Pair r w1)
  show thesis
  proof (cases r)
    case (Inl e)
    with Pair show thesis by (intro failed[of e w1]) (simp_all add: request_def)
  next
    case (Inr p)
    obtain pb hs where p: "p = (pb, hs)" by (cases p)
    let ?req = "\<lparr>out_method = method, out_url = endpoint self @ path,
                 out_headers = hs, out_content = pb\<rparr>"
    have r: "snd (request L self w method path payload) = snd (client_request w1 ?req)"
      using Pair Inr p
      by (simp add: request_def Let_def split: sum.splits prod.splits option.splits)
    from client_request_world[of w1 ?req] show thesis
    proof
      assume "snd (client_request w1 ?req) = w1"
      with r Pair Inr p show thesis by (intro unsent[of pb hs w1]) simp_all
    next
      assume "snd (client_request w1 ?req) = w1\<lparr>sent := sent w1 @ [?req]\<rparr>"
      with r Pair Inr p show thesis by (intro sent[of pb hs w1]) simp_all
    qed
  qed
qed

lemma request_stream_cases:
  obtains (failed) e w1 where "prepare_request L self w payload = (Inl e, w1)"
      "snd (request_stream L self w method path payload) = w1"
  | (unsent) pb hs w1 where "prepare_request L self w payload = (Inr (pb, hs), w1)"
      "snd (request_stream L self w method path payload) = w1"
  | (sent) pb hs w1 where "prepare_request L self w payload = (Inr (pb, hs), w1)"
      "snd (request_stream L self w method path payload)
         = w1\<lparr>sent := sent w1 @ [\<lparr>out_method = method, out_url = endpoint self @ path,
                                    out_headers = hs, out_content = pb\<rparr>]\<rparr>"
proof (cases "prepare_request L self w payload")
  case (Pair r w1)
  show thesis
  proof (cases r)
    case (Inl e)
    with Pair show thesis by (intro failed[of e w1]) (simp_all add: request_stream_def)
  next
    case (Inr p)
    obtain pb hs where p: "p = (pb, hs)" by (cases p)
    show thesis
    proof (cases "build_headers hs")
      case (Some e)
      with Pair Inr p show thesis
        by (intro unsent[of pb hs w1]) (simp_all add: request_stream_def)
    next
      case None
      with Pair Inr p show thesis
        by (intro sent[of pb hs w1])
           (simp_all add: request_stream_def Let_def split: sum.splits option.splits)
    qed
  qed
qed

lemma prepare_request_world:
  assumes "prepare_request L self w payload = (r, w1)"
  shows "sent w1 = sent w \<and> perf_reads w1 \<le> Suc (perf_reads w)"
  using assms
  by (auto simp: prepare_request_def Let_def hybrid_timestamp_ns_eq split: sum.splits prod.splits)

lemma outbound_signed:
  assumes prep: "prepare_request L self w payload = (Inr (pb, hs), w1)"
    and w': "sent w' = sent w1 @ [\<lparr>out_method = method, out_url = url,
                                    out_headers = hs, out_content = pb\<rparr>]"
            "perf_reads w' = perf_reads w1"
  shows "\<exists>req sig. sent w' = sent w @ [req] \<and> perf_reads w' = Suc (perf_reads w)
           \<and> map_of (out_headers req) (py ''X-Timestamp'')
               = Some (py_str (fst (hybrid_timestamp_ns self w)))
           \<and> map_of (out_headers req) (py ''Authorization'') = Some sig
           \<and> sign_payload L self (out_content req) (fst (hybrid_timestamp_ns self w))
                (provider_address self) = Inr sig"
proof -
  from prepare_request_Inr[OF prep] obtain sig where
    w1: "w1 = snd (hybrid_timestamp_ns self w)"
    and sg: "sign_payload L self pb (fst (hybrid_timestamp_ns self w)) (provider_address self)
               = Inr sig"
    and hs: "hs = [(py ''Content-Type'', py ''application/json''),
              (py ''Authorization'', sig),
              (py ''X-Requester-Address'', address self),
              (py ''X-Timestamp'', py_str (fst (hybrid_timestamp_ns self w)))]"
    by blast
  let ?req = "\<lparr>out_method = method, out_url = url, out_headers = hs, out_content = pb\<rparr>"
  have "sent w' = sent w @ [?req]" "perf_reads w' = Suc (perf_reads w)"
    using w' w1 by (simp_all add: hybrid_timestamp_ns_eq)
  moreover have "map_of (out_headers ?req) (py ''X-Timestamp'')
      = Some (py_str (fst (hybrid_timestamp_ns self w)))"
    "map_of (out_headers ?req) (py ''Authorization'') = Some sig"
    unfolding hs by (simp_all only: outbound.simps header_lookup)
  moreover have "sign_payload L self (out_content ?req) (fst (hybrid_timestamp_ns self w))
      (provider_address self) = Inr sig" using sg by simp
  ultimately show ?thesis by blast
qed

text \<open>
  Claim C7. A buffered or streamed request reads the clock at most once. Either it
  sends nothing (the request could not be prepared), or it sends exactly one outbound
  request, after exactly one reading of the clock, whose \<open>X-Timestamp\<close> header is the
  decimal string of that reading and whose \<open>Authorization\<close> header is the signature
  of the sent content at that same reading.
\<close>

theorem timestamp_header_is_signed_timestamp:
  assumes "w' = snd (request L self w method path payload)
           \<or> w' = snd (request_stream L self w method path payload)"
  shows "perf_reads w' \<le> Suc (perf_reads w)
     \<and> (sent w' = sent w
        \<or> (\<exists>req sig. sent w' = sent w @ [req] \<and> perf_reads w' = Suc (perf_reads w)
              \<and> map_of (out_headers req) (py ''X-Timestamp'')
                  = Some (py_str (fst (hybrid_timestamp_ns self w)))
              \<and> map_of (out_headers req) (py ''Authorization'') = Some sig
              \<and> sign_payload L self (out_content req) (fst (hybrid_timestamp_ns self w))
                   (provider_address self) = Inr sig))"
  using assms
proof
  assume w': "w' = snd (request L self w method path payload)"
  show ?thesis
  proof (cases rule: request_cases[of L self w payload "method" "path"])
    case (failed e w1)
    with prepare_request_world[OF failed(1)] w' show ?thesis by simp
  next
    case (unsent pb hs w1)
    with prepare_request_world[OF unsent(1)] w' show ?thesis by simp
  next
    case (sent pb hs w1)
    from outbound_signed[OF sent(1), of w' "method" "endpoint self @ path"] w' sent(2)
    show ?thesis by auto
  qed
next
  assume w': "w' = snd (request_stream L self w method path payload)"
  show ?thesis
  proof (cases rule: request_stream_cases[of L self w payload "method" "path"])
    case (failed e w1)
    with prepare_request_world[OF failed(1)] w' show ?thesis by simp
  next
    case (unsent pb hs w1)
    with prepare_request_world[OF unsent(1)] w' show ?thesis by simp
  next
    case (sent pb hs w1)
    from outbound_signed[OF sent(1), of w' "method" "endpoint self @ path"] w' sent(2)
    show ?thesis by auto
  qed
qed

lemma demo_message_000:
  "message_bytes [0x7B, 0x7D] 1700000000000000000 (py ''gonka1provider'')
     = Inr (map of_nat (py ''{}1700000000000000000gonka1provider''))"
  by (simp add: message_bytes_def py_str_def digits.simps py_def utf8_encode_cp_def)

lemma demo_low_s_000:
  "low_s (sign_deterministic demo_libs 167
       (map of_nat (py ''{}1700000000000000000gonka1provider'')) (sha256 demo_libs))
     = Inr (map of_nat (py ''{}1700000000000000000gonka1provi'') @ replicate 30 0 @ [1, 57])"
  by (simp add: low_s_def demo_libs_def demo_sign_def demo_sha256_def py_def from_bytes_def
      SECP256k1_order_def to_bytes_def be_bytes_numeral replicate_numeral' Let_def)

lemma demo_signature_000:
  "sign_payload demo_libs demo_client [0x7B, 0x7D] 1700000000000000000 (py ''gonka1provider'')
     = Inr (py ''e30xNzAwMDAwMDAwMDAwMDAwMDAwZ29ua2ExcHJvdmkAAAAAAAAAAAAAAAAAAAAAAAAAAAAAAAAAAAAAAAABOQ=='')"
  by (subst sign_payload_eq[OF demo_signing_key demo_message_000 demo_low_s_000])
     (simp add: py_def b64_char_def replicate_numeral')

lemma demo_timestamp: "hybrid_timestamp_ns demo_client (demo_world st)
    = (1700000000000000000, (demo_world st)\<lparr>perf_reads := 1\<rparr>)"
  by (simp add: hybrid_timestamp_ns_eq demo_client_def demo_world_def)

lemma demo_provider: "provider_address demo_client = py ''gonka1provider''"
  and demo_requester: "address demo_client = py ''gonka1requester''"
  and demo_endpoint: "endpoint demo_client = py ''https://node.example/v1''"
  by (simp_all add: demo_client_def)

lemma demo_dumps_empty: "utf8_encode (json_dumps demo_libs (JDict [])) = Inr [0x7B, 0x7D]"
  by (simp add: demo_libs_def demo_dumps_def py_def utf8_encode_cp_def)

lemma demo_py_str_000: "py_str 1700000000000000000 = py ''1700000000000000000''"
  by (simp add: py_str_def digits.simps py_def)

lemma demo_prepare:
  "prepare_request demo_libs demo_client (demo_world st) None
     = (Inr ([0x7B, 0x7D], demo_headers), (demo_world st)\<lparr>perf_reads := 1\<rparr>)"
  by (simp add: prepare_request_def demo_dumps_empty demo_timestamp demo_provider
      demo_requester demo_signature_000 demo_py_str_000 demo_headers_def)

lemma demo_prepare_Some:
  "prepare_request demo_libs demo_client (demo_world st) (Some (JDict []))
     = (Inr ([0x7B, 0x7D], demo_headers), (demo_world st)\<lparr>perf_reads := 1\<rparr>)"
  by (simp add: prepare_request_def demo_dumps_empty demo_timestamp demo_provider
      demo_requester demo_signature_000 demo_py_str_000 demo_headers_def)

lemma demo_build_headers: "build_headers demo_headers = None"
  by (simp add: build_headers_def ascii_str_def demo_headers_def py_def)

lemma demo_upstream: "upstream (demo_world st) n req
     = Inr \<lparr>status_code = st, body = [[0x4D]], body_error = None\<rparr>"
  by (simp add: demo_world_def)

lemma demo_sent: "sent (demo_world st) = []"
  "perf_reads (demo_world st) = 0"
  by (simp_all add: demo_world_def)

lemma demo_request_sent:
  "sent (snd (request demo_libs demo_client (demo_world 200) (py ''GET'') (py ''/models'') None))
     = [\<lparr>out_method = py ''GET'', out_url = py ''https://node.example/v1'' @ py ''/models'',
         out_headers = demo_headers, out_content = [0x7B, 0x7D]\<rparr>]"
  by (simp add: request_def demo_prepare client_request_def demo_build_headers demo_upstream
      demo_sent aread_def
      raise_for_status_def demo_endpoint Let_def)

theorem timestamp_header_is_signed_timestamp_witness:
  "sent (snd (request demo_libs demo_client (demo_world 200) (py ''GET'') (py ''/models'') None))
     \<noteq> sent (demo_world 200)
   \<and> (\<exists>req sig.
         sent (snd (request demo_libs demo_client (demo_world 200) (py ''GET'') (py ''/models'')
                 None)) = sent (demo_world 200) @ [req]
         \<and> perf_reads (snd (request demo_libs demo_client (demo_world 200) (py ''GET'')
                 (py ''/models'') None)) = Suc (perf_reads (demo_world 200))
         \<and> map_of (out_headers req) (py ''X-Timestamp'') = Some (py ''1700000000000000000'')
         \<and> map_of (out_headers req) (py ''Authorization'') = Some sig
         \<and> sign_payload demo_libs demo_client (out_content req) 1700000000000000000
              (py ''gonka1provider'') = Inr sig)"
proof -
  let ?w' = "snd (request demo_libs demo_client (demo_world 200) (py ''GET'') (py ''/models'') None)"
  have ne: "sent ?w' \<noteq> sent (demo_world 200)"
    by (simp add: demo_request_sent demo_sent)
  have "?w' = ?w' \<or> ?w' = snd (request_stream demo_libs demo_client (demo_world 200) (py ''GET'')
      (py ''/models'') None)" by simp
  from timestamp_header_is_signed_timestamp[OF this] ne
  show ?thesis by (simp add: demo_timestamp demo_provider demo_py_str_000)
qed

text \<open>
  Claim C8. Fetching the models always returns a value and never raises. It performs
  the buffered request \<open>GET /models\<close> with the payload \<open>{}\<close> and nothing else; when that
  request fails, with whatever exception, the result is the empty list; when it
  returns an object whose \<open>models\<close> entry is a list, the result is that list.
\<close>

theorem get_models_never_raises:
  "(\<exists>models. fst (get_models L self w) = Inr models)
   \<and> snd (get_models L self w)
       = snd (request L self w (py ''GET'') (py ''/models'') (Some (JDict [])))
   \<and> (fst (request L self w (py ''GET'') (py ''/models'') (Some (JDict []))) = Inl e \<longrightarrow>
        fst (get_models L self w) = Inr (JList []))
   \<and> (fst (request L self w (py ''GET'') (py ''/models'') (Some (JDict []))) = Inr (JDict kvs)
        \<and> map_of kvs (py ''models'') = Some (JList ms) \<longrightarrow>
        fst (get_models L self w) = Inr (JList ms))"
proof (cases "request L self w (py ''GET'') (py ''/models'') (Some (JDict []))")
  case (Pair r w')
  show ?thesis
  proof (cases r)
    case (Inl err)
    with Pair show ?thesis by (simp add: get_models_def)
  next
    case (Inr resp)
    with Pair show ?thesis
      by (auto simp: get_models_def dict_get_def py_len_def split: json.splits sum.splits option.splits)
  qed
qed

lemma demo_libs_loads: "json_loads demo_libs = demo_loads"
  by (simp add: demo_libs_def)

lemma demo_request_200:
  "fst (request demo_libs demo_client (demo_world 200) (py ''GET'') (py ''/models'')
          (Some (JDict [])))
     = Inr (JDict [(py ''models'', JList [JDict [(py ''id'', JStr (py ''m1''))]])])"
  by (simp add: request_def demo_prepare_Some client_request_def demo_build_headers
      demo_upstream demo_sent
      aread_def raise_for_status_def demo_endpoint Let_def demo_libs_loads demo_loads_def)

lemma demo_request_500:
  "fst (request demo_libs demo_client (demo_world 500) (py ''GET'') (py ''/models'')
          (Some (JDict [])))
     = Inl (HTTPStatusError 500 (Some [0x4D]))"
  by (simp add: request_def demo_prepare_Some client_request_def demo_build_headers
      demo_upstream demo_sent
      aread_def raise_for_status_def demo_endpoint Let_def)

theorem get_models_never_raises_witness:
  "fst (request demo_libs demo_client (demo_world 500) (py ''GET'') (py ''/models'')
          (Some (JDict []))) = Inl (HTTPStatusError 500 (Some [0x4D]))
   \<and> fst (get_models demo_libs demo_client (demo_world 500)) = Inr (JList [])
   \<and> fst (request demo_libs demo_client (demo_world 200) (py ''GET'') (py ''/models'')
          (Some (JDict [])))
       = Inr (JDict [(py ''models'', JList [JDict [(py ''id'', JStr (py ''m1''))]])])
   \<and> map_of [(py ''models'', JList [JDict [(py ''id'', JStr (py ''m1''))]])] (py ''models'')
       = Some (JList [JDict [(py ''id'', JStr (py ''m1''))]])
   \<and> fst (get_models demo_libs demo_client (demo_world 200))
       = Inr (JList [JDict [(py ''id'', JStr (py ''m1''))]])"
proof -
  have m: "map_of [(py ''models'', JList [JDict [(py ''id'', JStr (py ''m1''))]])] (py ''models'')
       = Some (JList [JDict [(py ''id'', JStr (py ''m1''))]])" by simp
  from get_models_never_raises[of demo_libs demo_client "demo_world 500"
        "HTTPStatusError 500 (Some [0x4D])"]
    get_models_never_raises[of demo_libs demo_client "demo_world 200" _
        "[(py ''models'', JList [JDict [(py ''id'', JStr (py ''m1''))]])]"
        "[JDict [(py ''id'', JStr (py ''m1''))]]"]
    demo_request_200 demo_request_500 m
  show ?thesis by blast
qed

text \<open>
  What the streamed path does hold to: once the request is on its way, a status of 400
  or more yields no chunk and ends with \<open>HTTPStatusError\<close> for that status, carrying
  the whole body whenever the body could be read; and any chunk that is yielded comes
  from a response whose status is below 400.
\<close>

lemma request_stream_status_400:
  assumes prep: "prepare_request L self w payload = (Inr (pb, hs), w1)"
    and hdr: "build_headers hs = None"
    and up: "upstream w1 (length (sent w1))
               \<lparr>out_method = method, out_url = endpoint self @ path,
                out_headers = hs, out_content = pb\<rparr> = Inr resp"
    and err: "400 \<le> status_code resp"
  shows "fst (request_stream L self w method path payload)
        = \<lparr>chunks = [],
           raised = Some (HTTPStatusError (status_code resp)
                      (case body_error resp of
                         None \<Rightarrow> Some (concat (body resp))
                       | Some e \<Rightarrow> None))\<rparr>"
proof -
  from err have ns: "\<not> (200 \<le> status_code resp \<and> status_code resp \<le> 299)" by simp
  from prep hdr up err ns show ?thesis
    by (simp add: request_stream_def Let_def aread_def raise_for_status_def
        split: option.splits)
qed

lemma request_stream_chunks_status:
  assumes c: "chunks (fst (request_stream L self w method path payload)) \<noteq> []"
  shows "\<exists>pb hs w1 resp.
           prepare_request L self w payload = (Inr (pb, hs), w1)
           \<and> upstream w1 (length (sent w1))
                \<lparr>out_method = method, out_url = endpoint self @ path,
                 out_headers = hs, out_content = pb\<rparr> = Inr resp
           \<and> status_code resp < 400
           \<and> chunks (fst (request_stream L self w method path payload)) = body resp"
proof -
  obtain r w1 where p: "prepare_request L self w payload = (r, w1)"
    by (cases "prepare_request L self w payload")
  from c p obtain pb hs where r: "r = Inr (pb, hs)"
    by (cases r) (auto simp: request_stream_def)
  from c p r have hdr: "build_headers hs = None"
    by (cases "build_headers hs") (auto simp: request_stream_def)
  let ?req = "\<lparr>out_method = method, out_url = endpoint self @ path,
                 out_headers = hs, out_content = pb\<rparr>"
  from c p r hdr obtain resp where u: "upstream w1 (length (sent w1)) ?req = Inr resp"
    by (cases "upstream w1 (length (sent w1)) ?req") (auto simp: request_stream_def Let_def)
  have lt: "status_code resp < 400"
  proof (rule ccontr)
    assume "\<not> status_code resp < 400"
    then have "400 \<le> status_code resp" by simp
    from request_stream_status_400[OF _ hdr u this] p r
    have "chunks (fst (request_stream L self w method path payload)) = []" by simp
    with c show False by simp
  qed
  then have "chunks (fst (request_stream L self w method path payload)) = body resp"
    using p r hdr u by (simp add: request_stream_def Let_def aiter_bytes_def)
  with p r u lt show ?thesis by blast
qed

text \<open>
  Claim C9. A streamed request whose upstream response has an error status yields no
  chunk: the error body is read and \<open>HTTPStatusError\<close> is raised first, and chunks are
  yielded only after a success status. The code keeps to this for every status of 400
  or more, and misses the statuses that are neither a success nor 400 or more. For the
  answer 302 with the body \<open>M\<close>, the streamed request yields \<open>M\<close> and raises nothing,
  where the buffered request raises \<open>HTTPStatusError\<close> for the same answer; for the
  answer 503 the streamed request yields nothing and raises.
\<close>

theorem request_stream_redirect_streams:
  "fst (request_stream demo_libs demo_client (demo_world 302) (py ''POST'')
          (py ''/chat/completions'') None)
     = \<lparr>chunks = [[0x4D]], raised = None\<rparr>
   \<and> fst (request demo_libs demo_client (demo_world 302) (py ''POST'')
          (py ''/chat/completions'') None)
     = Inl (HTTPStatusError 302 (Some [0x4D]))
   \<and> fst (request_stream demo_libs demo_client (demo_world 503) (py ''POST'')
          (py ''/chat/completions'') None)
     = \<lparr>chunks = [], raised = Some (HTTPStatusError 503 (Some [0x4D]))\<rparr>"
  by (simp add: request_stream_def request_def client_request_def demo_prepare
      demo_build_headers demo_upstream demo_sent Let_def aiter_bytes_def aread_def
      raise_for_status_def)

section \<open>Claims about the chat completions route\<close>

lemma create_incomplete:
  assumes "gonka_private_key S = [] \<or> gonka_address S = [] \<or> gonka_endpoint S = []
           \<or> gonka_provider_address S = []"
    and "gonka_client st = None"
  shows "create_gonka_client S st w = (None, st, w)"
  using assms by (auto simp: create_gonka_client_def)

lemma chat_completions_incomplete:
  assumes "gonka_private_key S = [] \<or> gonka_address S = [] \<or> gonka_endpoint S = []
           \<or> gonka_provider_address S = []"
    and "gonka_client st = None"
  shows "chat_completions S L st w req = (HTTPException 500 (incomplete_detail S), st, w)"
  by (simp add: chat_completions_def get_gonka_client_def create_incomplete[OF assms])

lemma post_incomplete_state:
  assumes "gonka_private_key S = [] \<or> gonka_address S = [] \<or> gonka_endpoint S = []
           \<or> gonka_provider_address S = []"
    and "gonka_client st = None"
  shows "snd (post_chat_completions S L st w req) = (st, w)"
  by (simp add: post_chat_completions_def chat_completions_incomplete[OF assms]
      split: sum.splits)

lemma serve_all_incomplete:
  assumes inc: "gonka_private_key S = [] \<or> gonka_address S = [] \<or> gonka_endpoint S = []
           \<or> gonka_provider_address S = []"
  shows "gonka_client st = None \<Longrightarrow> serve_all S L (st, w) reqs = (st, w)"
proof (induction reqs)
  case Nil
  show ?case by simp
next
  case (Cons req reqs)
  from post_incomplete_state[OF inc Cons.prems] Cons.IH[OF Cons.prems] show ?case by simp
qed

lemma run_process_incomplete:
  assumes inc: "gonka_private_key S = [] \<or> gonka_address S = [] \<or> gonka_endpoint S = []
           \<or> gonka_provider_address S = []"
    and run: "run_process S L w0 reqs = (st, w)"
  shows "gonka_client st = None"
proof -
  have n: "gonka_client initial_state = None" by (simp add: initial_state_def)
  have "lifespan_startup S L initial_state w0 = (initial_state, w0)"
    using create_incomplete[OF inc n] by (simp add: lifespan_startup_def initial_state_def)
  then have "run_process S L w0 reqs = (initial_state, w0)"
    using serve_all_incomplete[OF inc n] by (simp add: run_process_def)
  with run n show ?thesis by simp
qed

lemma verify_api_key_result:
  "verify_api_key S req = Inl exc \<Longrightarrow>
     (\<exists>detail. exc = HTTPException 500 detail) \<or> (\<exists>detail. exc = HTTPException 401 detail)"
  by (auto simp: verify_api_key_def Let_def split: if_splits)

lemma missing_names:
  "(py ''GONKA_PRIVATE_KEY'' \<in> set (missing_settings S)) = (gonka_private_key S = [])"
  "(py ''GONKA_ADDRESS'' \<in> set (missing_settings S)) = (gonka_address S = [])"
  "(py ''GONKA_ENDPOINT'' \<in> set (missing_settings S)) = (gonka_endpoint S = [])"
  "(py ''GONKA_PROVIDER_ADDRESS (provider address in bech32 format, get it from the Gonka provider)''
       \<in> set (missing_settings S)) = (gonka_provider_address S = [])"
  by (auto simp: missing_settings_def py_def)

text \<open>
  Claim C10, as the code has it. Let one of the four upstream settings be unset, after
  the startup and any number of requests served. A request to \<open>POST /v1/chat/completions\<close> that
  passes the API-key check is answered with status 500, whose detail lists exactly the
  unset settings; the request body is not read (the world is returned unchanged) and
  no client is created. Whether or not the request passes the check, the answer is an
  \<open>HTTPException\<close> whose status is not 400. The API-key check comes first: without a
  valid key the answer is 401 (or 500 for a missing server key), not the configuration
  error, which is where the claim as written fails.
\<close>

theorem unconfigured_chat_completions:
  assumes inc: "gonka_private_key S = [] \<or> gonka_address S = [] \<or> gonka_endpoint S = []
           \<or> gonka_provider_address S = []"
    and run: "run_process S L w0 reqs = (st, w)"
  shows "(verify_api_key S req = Inr ok \<longrightarrow>
            post_chat_completions S L st w req
              = (HTTPException 500 (incomplete_detail S), st, w))
     \<and> (\<exists>status detail.
            post_chat_completions S L st w req = (HTTPException status detail, st, w)
            \<and> status \<noteq> 400)
     \<and> incomplete_detail S =
          py ''Gonka configuration incomplete. Missing: ''
          @ py_join (py '', '') (missing_settings S)
          @ py ''. GONKA_PROVIDER_ADDRESS is the Gonka provider address (bech32 format), which can be obtained from the provider or in Gonka documentation.''
     \<and> (py ''GONKA_PRIVATE_KEY'' \<in> set (missing_settings S)) = (gonka_private_key S = [])
     \<and> (py ''GONKA_ADDRESS'' \<in> set (missing_settings S)) = (gonka_address S = [])
     \<and> (py ''GONKA_ENDPOINT'' \<in> set (missing_settings S)) = (gonka_endpoint S = [])
     \<and> (py ''GONKA_PROVIDER_ADDRESS (provider address in bech32 format, get it from the Gonka provider)''
          \<in> set (missing_settings S)) = (gonka_provider_address S = [])"
proof -
  have none: "gonka_client st = None" by (rule run_process_incomplete[OF inc run])
  note cc = chat_completions_incomplete[OF inc none]
  have a: "verify_api_key S req = Inr ok \<longrightarrow>
            post_chat_completions S L st w req
              = (HTTPException 500 (incomplete_detail S), st, w)"
    by (simp add: post_chat_completions_def cc)
  have b: "\<exists>status detail.
            post_chat_completions S L st w req = (HTTPException status detail, st, w)
            \<and> status \<noteq> 400"
  proof (cases "verify_api_key S req")
    case (Inl exc)
    from verify_api_key_result[OF Inl] Inl show ?thesis
      by (auto simp: post_chat_completions_def)
  next
    case (Inr ok')
    then show ?thesis by (simp add: post_chat_completions_def cc)
  qed
  have c: "incomplete_detail S =
          py ''Gonka configuration incomplete. Missing: ''
          @ py_join (py '', '') (missing_settings S)
          @ py ''. GONKA_PROVIDER_ADDRESS is the Gonka provider address (bech32 format), which can be obtained from the provider or in Gonka documentation.''"
    by (simp add: incomplete_detail_def py_def)
  from a b c missing_names[of S] show ?thesis by simp
qed

lemma demo_incomplete:
  "gonka_private_key demo_settings = [] \<or> gonka_address demo_settings = []
   \<or> gonka_endpoint demo_settings = [] \<or> gonka_provider_address demo_settings = []"
  by (simp add: demo_settings_def)

lemma demo_startup:
  "lifespan_startup demo_settings demo_libs initial_state (demo_world 200)
     = (initial_state, demo_world 200)"
  by (simp add: lifespan_startup_def create_gonka_client_def initial_state_def demo_settings_def)

lemma demo_run:
  "run_process demo_settings demo_libs (demo_world 200)
     [\<lparr>authorization = None, credentials = None, raw_body = [0x7B]\<rparr>]
     = (initial_state, demo_world 200)"
  by (simp only: run_process_def demo_startup)
     (simp add: post_chat_completions_def verify_api_key_def demo_settings_def py_def)

lemma demo_verify_ok:
  "verify_api_key demo_settings
     \<lparr>authorization = Some (py ''Bearer sk-test''), credentials = Some (py ''sk-test''),
      raw_body = [0x7B]\<rparr> = Inr True"
  by (simp add: verify_api_key_def demo_settings_def py_def)

theorem unconfigured_chat_completions_witness:
  "(gonka_private_key demo_settings = [] \<or> gonka_address demo_settings = []
     \<or> gonka_endpoint demo_settings = [] \<or> gonka_provider_address demo_settings = [])
   \<and> run_process demo_settings demo_libs (demo_world 200)
        [\<lparr>authorization = None, credentials = None, raw_body = [0x7B]\<rparr>]
       = (initial_state, demo_world 200)
   \<and> verify_api_key demo_settings
        \<lparr>authorization = Some (py ''Bearer sk-test''), credentials = Some (py ''sk-test''),
         raw_body = [0x7B]\<rparr> = Inr True
   \<and> json_loads demo_libs [0x7B] = Inl JSONDecodeError
   \<and> post_chat_completions demo_settings demo_libs initial_state (demo_world 200)
        \<lparr>authorization = Some (py ''Bearer sk-test''), credentials = Some (py ''sk-test''),
         raw_body = [0x7B]\<rparr>
       = (HTTPException 500
            (py ''Gonka configuration incomplete. Missing: GONKA_ENDPOINT, GONKA_PROVIDER_ADDRESS (provider address in bech32 format, get it from the Gonka provider). GONKA_PROVIDER_ADDRESS is the Gonka provider address (bech32 format), which can be obtained from the provider or in Gonka documentation.''),
          initial_state, demo_world 200)"
proof -
  have l: "json_loads demo_libs [0x7B] = Inl JSONDecodeError"
    by (simp add: demo_libs_def demo_loads_def)
  have d: "incomplete_detail demo_settings =
      py ''Gonka configuration incomplete. Missing: GONKA_ENDPOINT, GONKA_PROVIDER_ADDRESS (provider address in bech32 format, get it from the Gonka provider). GONKA_PROVIDER_ADDRESS is the Gonka provider address (bech32 format), which can be obtained from the provider or in Gonka documentation.''"
    by (simp add: incomplete_detail_def missing_settings_def demo_settings_def demo_key_def
        py_def)
  from unconfigured_chat_completions[OF demo_incomplete demo_run, where ok = True
      and req = "\<lparr>authorization = Some (py ''Bearer sk-test''),
                  credentials = Some (py ''sk-test''), raw_body = [0x7B]\<rparr>"]
    demo_verify_ok
  have "post_chat_completions demo_settings demo_libs initial_state (demo_world 200)
        \<lparr>authorization = Some (py ''Bearer sk-test''), credentials = Some (py ''sk-test''),
         raw_body = [0x7B]\<rparr>
       = (HTTPException 500 (incomplete_detail demo_settings), initial_state, demo_world 200)"
    by blast
  with demo_incomplete demo_run demo_verify_ok l d show ?thesis by simp
qed

text \<open>
  The claim C10 as written fails for a request without an \<open>Authorization\<close> header:
  the server is unconfigured, and the answer is 401.
\<close>

theorem unauthenticated_request_counterexample:
  "gonka_endpoint demo_settings = []
   \<and> fst (post_chat_completions demo_settings demo_libs
        (fst (run_process demo_settings demo_libs (demo_world 200) []))
        (snd (run_process demo_settings demo_libs (demo_world 200) []))
        \<lparr>authorization = None, credentials = None, raw_body = [0x7B]\<rparr>)
       = HTTPException 401
           (py ''Missing API key. Please provide Authorization header with Bearer token.'')"
  by (simp only: run_process_def demo_startup serve_all.simps fst_conv snd_conv)
     (simp add: post_chat_completions_def verify_api_key_def demo_settings_def py_def)

end
